theory Spec2Isabelle
  imports Main "HOL-Library.Word" "HOL-Library.Signed_Division" "HOL-Library.Monad_Syntax"
begin

chapter \<open>The wings runtime: a shallow embedding\<close>

section \<open>Integer methods of the builtin library\<close>

text \<open>
  The builtin library stores an Int as a machine integer \<open>wint\<close> (64 bits, signed).
  The C++ operator \<open>%\<close> truncates towards zero: the remainder has the sign of the
  dividend. \<open>cpp_rem\<close> is that operator on the two's complement reading of the words.
\<close>

type_synonym wint = "64 word"

definition cpp_rem :: "wint \<Rightarrow> wint \<Rightarrow> wint" where
  "cpp_rem a b = word_of_int (sint a smod sint b)"

text \<open>
  The arguments a library method receives. Only the tags the arithmetic methods test carry
  their payload here; \<open>'f\<close> is the floating point type \<open>wfloat\<close>, whose operations
  are passed in \<open>float_ops\<close>.
\<close>

datatype 'f WObj =
    Null_t
  | Bool_t bool
  | Int_t wint
  | Float_t 'f
  | String_t string
  | Other_t

record 'f float_ops =
  of_wint :: "wint \<Rightarrow> 'f"
  is_zero :: "'f \<Rightarrow> bool"
  fmod :: "'f \<Rightarrow> 'f \<Rightarrow> 'f"

text \<open>What a method does when it returns: raise an error and return null, or create a value.\<close>

datatype 'f method_result =
    RaiseError string
  | CreateInt wint
  | CreateFloat 'f

definition WIsInt :: "'f WObj \<Rightarrow> bool" where
  "WIsInt obj = (case obj of Int_t _ \<Rightarrow> True | _ \<Rightarrow> False)"

definition WIsIntOrFloat :: "'f WObj \<Rightarrow> bool" where
  "WIsIntOrFloat obj = (case obj of Int_t _ \<Rightarrow> True | Float_t _ \<Rightarrow> True | _ \<Rightarrow> False)"

text \<open>
  \<open>WGetFloat(obj) == 0\<close>: an Int converts to the float zero exactly when it is zero.
\<close>

definition WGetFloat_is_zero :: "'f float_ops \<Rightarrow> 'f WObj \<Rightarrow> bool" where
  "WGetFloat_is_zero ops obj =
     (case obj of Int_t i \<Rightarrow> i = 0 | Float_t f \<Rightarrow> is_zero ops f | _ \<Rightarrow> False)"

definition WGetFloat :: "'f float_ops \<Rightarrow> 'f WObj \<Rightarrow> 'f" where
  "WGetFloat ops obj = (case obj of Int_t i \<Rightarrow> of_wint ops i | Float_t f \<Rightarrow> f | _ \<Rightarrow> of_wint ops 0)"

text \<open>
  \<open>Int_Mod\<close> (\<open>int.__mod__\<close>): two arguments, the first an Int, the second an Int or a
  Float; a zero divisor is an error; on two Ints the C++ remainder, moved up by the divisor
  when it is negative.
\<close>

definition Int_Mod :: "'f float_ops \<Rightarrow> 'f WObj list \<Rightarrow> 'f method_result" where
  "Int_Mod ops argv =
     (if length argv \<noteq> 2 then RaiseError ''Function takes 2 argument(s)''
      else if \<not> WIsInt (argv ! 0) then RaiseError ''Argument 1 expected type int''
      else if \<not> WIsIntOrFloat (argv ! 1) then RaiseError ''Argument 2 expected type int or float''
      else if WGetFloat_is_zero ops (argv ! 1) then RaiseError ''Division by zero''
      else (case (argv ! 0, argv ! 1) of
              (Int_t a, Int_t modv) \<Rightarrow>
                (let m = cpp_rem a modv;
                     m = (if sint m < 0 then m + modv else m)
                 in CreateInt m)
            | _ \<Rightarrow> CreateFloat (fmod ops (WGetFloat ops (argv ! 0)) (WGetFloat ops (argv ! 1)))))"

text \<open>The floored remainder the specification asks for: \<open>a - b * floor (a / b)\<close>.\<close>

definition floored_mod :: "int \<Rightarrow> int \<Rightarrow> int" where
  "floored_mod a b = a - b * (a div b)"

section \<open>The runtime's data\<close>

text \<open>
  A handle \<open>Wg_Obj*\<close> is an address; the null handle is \<open>None\<close> of \<open>addr option\<close>.
  A \<open>void*\<close> is a number or null. A function pointer of type \<open>Wg_Function\<close> is either the
  constructor that \<open>Wg_NewClass\<close> installs in every class it creates, or native code outside
  this development, named by a number.
\<close>

type_synonym addr = nat
type_synonym void_ptr = "nat option"

datatype Wg_Function = NewClass_ctor | Native nat

text \<open>
  Modelled from the spec: the attribute table (\<open>AttributeTable\<close>, whose source file is not
  part of the sources at hand). A mapping from names to handles in insertion order, and an
  ordered list of parent tables. A lookup consults the local map, then each parent in order,
  depth first; a write goes to the local map; \<open>ForEach\<close> visits the local entries; a copy
  has the same entries and the same parents.
\<close>

datatype AttributeTable =
  AttributeTable (entries: "(string \<times> addr) list") (parents: "AttributeTable list")

fun Get :: "AttributeTable \<Rightarrow> string \<Rightarrow> addr option"
  and Get_parents :: "AttributeTable list \<Rightarrow> string \<Rightarrow> addr option" where
  "Get (AttributeTable es ps) name =
     (case map_of es name of Some v \<Rightarrow> Some v | None \<Rightarrow> Get_parents ps name)"
| "Get_parents [] name = None"
| "Get_parents (p # ps) name =
     (case Get p name of Some v \<Rightarrow> Some v | None \<Rightarrow> Get_parents ps name)"

definition GetFromBase :: "AttributeTable \<Rightarrow> string \<Rightarrow> addr option" where
  "GetFromBase t name = Get_parents (parents t) name"

definition Set_entry :: "string \<Rightarrow> addr \<Rightarrow> AttributeTable \<Rightarrow> AttributeTable" where
  "Set_entry name v t =
     (if name \<in> fst ` set (entries t)
      then AttributeTable (map (\<lambda>(k, w). if k = name then (k, v) else (k, w)) (entries t)) (parents t)
      else AttributeTable (entries t @ [(name, v)]) (parents t))"

definition AddParent :: "AttributeTable \<Rightarrow> AttributeTable \<Rightarrow> AttributeTable" where
  "AddParent parent t = AttributeTable (entries t) (parents t @ [parent])"

definition Copy :: "AttributeTable \<Rightarrow> AttributeTable" where
  "Copy t = AttributeTable (entries t) (parents t)"

definition ForEach :: "AttributeTable \<Rightarrow> addr list" where
  "ForEach t = map snd (entries t)"

text \<open>The payloads \<open>data\<close> points to, one for each type \<open>Get<T>\<close> is used at.\<close>

record Func =
  self :: "addr option"
  fptr :: Wg_Function
  userdata :: void_ptr
  isMethod :: bool
  module :: string
  prettyName :: string

record Class =
  name :: string
  class_module :: string
  bases :: "addr list"
  instanceAttributes :: AttributeTable
  class_userdata :: void_ptr
  ctor :: Wg_Function

datatype Data =
    NoData
  | BoolData bool
  | IntData wint
  | FloatData "64 word"
  | StringData string
  | VectorData "addr list"
  | DictData "(addr \<times> addr) list"
  | SetData "addr list"
  | FuncData Func
  | ClassData Class
  | HostData nat

record Wg_FinalizerDesc =
  fin_fptr :: "nat option"
  fin_userdata :: void_ptr

record Wg_Obj =
  type :: string
  data :: Data
  attributes :: AttributeTable
  finalizer :: Wg_FinalizerDesc
  references :: "addr list"

record TraceFrame =
  srcPos :: "(nat \<times> nat) option"
  lineText :: string
  frame_module :: string
  frame_func :: string
  syntaxError :: bool

definition ToOwned :: "TraceFrame \<Rightarrow> TraceFrame" where
  "ToOwned frame = \<lparr> srcPos = srcPos frame, lineText = lineText frame,
     frame_module = frame_module frame, frame_func = frame_func frame,
     syntaxError = syntaxError frame \<rparr>"

record Wg_Config =
  maxAlloc :: int
  maxRecursion :: int
  maxCollectionSize :: int
  enableOSAccess :: bool
  isatty :: bool

datatype Wg_Exc =
    WG_EXC_BASEEXCEPTION | WG_EXC_SYSTEMEXIT | WG_EXC_EXCEPTION | WG_EXC_STOPITERATION
  | WG_EXC_ARITHMETICERROR | WG_EXC_OVERFLOWERROR | WG_EXC_ZERODIVISIONERROR
  | WG_EXC_ATTRIBUTEERROR | WG_EXC_IMPORTERROR | WG_EXC_LOOKUPERROR | WG_EXC_INDEXERROR
  | WG_EXC_KEYERROR | WG_EXC_MEMORYERROR | WG_EXC_NAMEERROR | WG_EXC_OSERROR
  | WG_EXC_ISADIRECTORYERROR | WG_EXC_RUNTIMEERROR | WG_EXC_NOTIMPLEMENTEDERROR
  | WG_EXC_RECURSIONERROR | WG_EXC_SYNTAXERROR | WG_EXC_TYPEERROR | WG_EXC_VALUEERROR

record Builtins =
  none :: "addr option"
  true' :: "addr option"
  false' :: "addr option"
  bool' :: "addr option"
  int' :: "addr option"
  float' :: "addr option"
  str :: "addr option"
  tuple :: "addr option"
  list' :: "addr option"
  dict :: "addr option"
  set' :: "addr option"
  func :: "addr option"
  object :: "addr option"
  hash :: "addr option"
  len :: "addr option"
  repr :: "addr option"
  moduleObject :: "addr option"
  baseException :: "addr option"
  systemExit :: "addr option"
  exception :: "addr option"
  stopIteration :: "addr option"
  arithmeticError :: "addr option"
  overflowError :: "addr option"
  zeroDivisionError :: "addr option"
  attributeError :: "addr option"
  importError :: "addr option"
  lookupError :: "addr option"
  indexError :: "addr option"
  keyError :: "addr option"
  memoryError :: "addr option"
  nameError :: "addr option"
  osError :: "addr option"
  isADirectoryError :: "addr option"
  runtimeError :: "addr option"
  notImplementedError :: "addr option"
  recursionError :: "addr option"
  syntaxError_class :: "addr option"
  typeError :: "addr option"
  valueError :: "addr option"

text \<open>
  Modelled from the spec: \<open>GetAll\<close>, every builtin class and singleton of the context (the
  declaration of the builtins is not part of the sources at hand).
\<close>

definition GetAll :: "Builtins \<Rightarrow> addr option list" where
  "GetAll b = [none b, true' b, false' b, bool' b, int' b, float' b, str b, tuple b, list' b,
     dict b, set' b, func b, object b, hash b, len b, repr b, moduleObject b,
     baseException b, systemExit b, exception b, stopIteration b, arithmeticError b,
     overflowError b, zeroDivisionError b, attributeError b, importError b, lookupError b,
     indexError b, keyError b, memoryError b, nameError b, osError b, isADirectoryError b,
     runtimeError b, notImplementedError b, recursionError b, syntaxError_class b,
     typeError b, valueError b]"

text \<open>
  The context. \<open>mem\<close> is the arena: each object with its address, in allocation order.
  A module's globals map a variable to the handle in its cell. \<open>protectedObjects\<close> maps a
  pinned handle to its count. \<open>finalized\<close> records the finalizers the collector has run
  (a finalizer is host code that receives the object and its userdata, not the context).
\<close>

record Wg_Context =
  config :: Wg_Config
  currentModule :: "string list"
  globals :: "(string \<times> (string \<times> addr) list) list"
  moduleLoaders :: "(string \<times> nat) list"
  importPath :: string
  builtins :: Builtins
  currentException :: "addr option"
  exceptionTrace :: "TraceFrame list"
  currentTrace :: "TraceFrame list"
  traceMessage :: string
  kwargs :: "addr option list"
  ctx_userdata :: "void_ptr list"
  mem :: "(addr \<times> Wg_Obj) list"
  protectedObjects :: "(addr \<times> nat) list"
  lastObjectCountAfterGC :: nat
  ctx_argv :: "addr option"
  finalized :: "(addr \<times> nat \<times> void_ptr) list"

text \<open>
  What lies outside the sources at hand, as parameters: the native functions behind function
  pointers (they receive the context and the arguments, and return a handle or null; \<open>None\<close>
  when they do not return), the allocator, the module loaders, the file system and the
  compiler, the naming of an object's type for messages, the test for identifiers, and
  whether the error callback that a failed \<open>WG_ASSERT\<close> invokes returns (the function then
  returns its default value) or aborts.
\<close>

record env =
  call_native :: "nat \<Rightarrow> Wg_Context \<Rightarrow> addr list \<Rightarrow> (addr option \<times> Wg_Context) option"
  Alloc :: "Wg_Context \<Rightarrow> addr option \<times> Wg_Context"
  call_loader :: "nat \<Rightarrow> Wg_Context \<Rightarrow> (bool \<times> Wg_Context) option"
  ReadFromFile :: "string \<Rightarrow> string option"
  Compile :: "Wg_Context \<Rightarrow> string \<Rightarrow> string \<Rightarrow> string \<Rightarrow> bool \<Rightarrow> addr option \<times> Wg_Context"
  WObjTypeToString :: "Wg_Context \<Rightarrow> addr \<Rightarrow> string"
  IsValidIdentifier :: "string \<Rightarrow> bool"
  error_callback_returns :: bool

section \<open>Handles, assertions and pins\<close>

text \<open>
  Reading through a handle that is not in the arena is undefined behaviour: the functions
  below do not return then (\<open>None\<close>). The same holds for \<open>Get<T>\<close> on a payload of
  another type.
\<close>

definition obj_at :: "Wg_Context \<Rightarrow> addr \<Rightarrow> Wg_Obj option" where
  "obj_at ctx a = map_of (mem ctx) a"

definition update_obj :: "addr \<Rightarrow> (Wg_Obj \<Rightarrow> Wg_Obj) \<Rightarrow> Wg_Context \<Rightarrow> Wg_Context" where
  "update_obj a f ctx =
     ctx\<lparr>mem := map (\<lambda>(a', ob). if a' = a then (a', f ob) else (a', ob)) (mem ctx)\<rparr>"

text \<open>
  A failed \<open>WG_ASSERT\<close> calls the error callback; when that returns, the function returns its
  default value \<open>dflt\<close>.
\<close>

definition assert_failed :: "env \<Rightarrow> 'a \<Rightarrow> 'a option" where
  "assert_failed env dflt = (if error_callback_returns env then Some dflt else None)"

definition Wg_IsInt :: "Wg_Obj \<Rightarrow> bool" where
  "Wg_IsInt obj = (type obj = ''__int'')"

definition Wg_IsString :: "Wg_Obj \<Rightarrow> bool" where
  "Wg_IsString obj = (type obj = ''__str'')"

definition Wg_IsTuple :: "Wg_Obj \<Rightarrow> bool" where
  "Wg_IsTuple obj = (type obj = ''__tuple'')"

definition Wg_IsList :: "Wg_Obj \<Rightarrow> bool" where
  "Wg_IsList obj = (type obj = ''__list'')"

definition Wg_IsDictionary :: "Wg_Obj \<Rightarrow> bool" where
  "Wg_IsDictionary obj = (type obj = ''__map'')"

definition Wg_IsSet :: "Wg_Obj \<Rightarrow> bool" where
  "Wg_IsSet obj = (type obj = ''__set'')"

definition Wg_IsClass :: "Wg_Obj \<Rightarrow> bool" where
  "Wg_IsClass obj = (type obj = ''__class'')"

definition Wg_IsFunction :: "Wg_Obj \<Rightarrow> bool" where
  "Wg_IsFunction obj = (type obj = ''__func'')"

text \<open>\<open>Wg_IsNone\<close> and \<open>Wg_IsBool\<close> compare the handle with the singletons.\<close>

definition Wg_IsNone :: "Wg_Context \<Rightarrow> addr \<Rightarrow> bool" where
  "Wg_IsNone ctx obj = (Some obj = none (builtins ctx))"

definition Wg_IsBool :: "env \<Rightarrow> Wg_Context \<Rightarrow> addr option \<Rightarrow> bool option" where
  "Wg_IsBool env ctx obj =
     (case obj of
        None \<Rightarrow> assert_failed env False
      | Some a \<Rightarrow> Some (Some a = true' (builtins ctx) \<or> Some a = false' (builtins ctx)))"

definition Wg_ProtectObject :: "addr \<Rightarrow> Wg_Context \<Rightarrow> Wg_Context" where
  "Wg_ProtectObject obj ctx =
     (case map_of (protectedObjects ctx) obj of
        None \<Rightarrow> ctx\<lparr>protectedObjects := protectedObjects ctx @ [(obj, 1)]\<rparr>
      | Some refCount \<Rightarrow>
          ctx\<lparr>protectedObjects :=
            map (\<lambda>(a, k). if a = obj then (a, k + 1) else (a, k)) (protectedObjects ctx)\<rparr>)"

definition Wg_UnprotectObject :: "env \<Rightarrow> addr \<Rightarrow> Wg_Context \<Rightarrow> Wg_Context option" where
  "Wg_UnprotectObject env obj ctx =
     (case map_of (protectedObjects ctx) obj of
        None \<Rightarrow> assert_failed env ctx
      | Some refCount \<Rightarrow>
          if refCount = 1
          then Some (ctx\<lparr>protectedObjects := filter (\<lambda>(a, k). a \<noteq> obj) (protectedObjects ctx)\<rparr>)
          else Some (ctx\<lparr>protectedObjects :=
            map (\<lambda>(a, k). if a = obj then (a, k - 1) else (a, k)) (protectedObjects ctx)\<rparr>))"

text \<open>
  Modelled from the spec: the scoped guard \<open>Wg_ObjRef\<close> (its declaration is not part of the
  sources at hand) pins a handle when it is constructed and releases it when its scope ends.
  \<open>acquire\<close> constructs guards in order, \<open>release\<close> ends the scope of the guards given.
\<close>

definition acquire :: "addr list \<Rightarrow> Wg_Context \<Rightarrow> Wg_Context" where
  "acquire objs ctx = fold Wg_ProtectObject objs ctx"

fun release :: "env \<Rightarrow> addr list \<Rightarrow> Wg_Context \<Rightarrow> Wg_Context option" where
  "release env [] ctx = Some ctx"
| "release env (obj # objs) ctx =
     (case Wg_UnprotectObject env obj ctx of None \<Rightarrow> None | Some ctx' \<Rightarrow> release env objs ctx')"

section \<open>Attribute lookup\<close>

text \<open>
  The three lookups end alike: a function found with \<open>isMethod\<close> set gets the receiver as its
  \<open>self\<close>, and the handle found is returned. \<open>bind_self\<close> is that common end.
\<close>

definition bind_self :: "Wg_Context \<Rightarrow> addr \<Rightarrow> addr \<Rightarrow> (addr option \<times> Wg_Context) option" where
  "bind_self ctx obj m =
     (case obj_at ctx m of
        None \<Rightarrow> None
      | Some mo \<Rightarrow>
          if Wg_IsFunction mo
          then (case data mo of
                  FuncData f \<Rightarrow>
                    if isMethod f
                    then Some (Some m, update_obj m (\<lambda>ob. ob\<lparr>data := FuncData (f\<lparr>self := Some obj\<rparr>)\<rparr>) ctx)
                    else Some (Some m, ctx)
                | _ \<Rightarrow> None)
          else Some (Some m, ctx))"

definition Wg_HasAttribute ::
  "env \<Rightarrow> Wg_Context \<Rightarrow> addr \<Rightarrow> string \<Rightarrow> (addr option \<times> Wg_Context) option" where
  "Wg_HasAttribute env ctx obj member =
     (if \<not> IsValidIdentifier env member then assert_failed env (None, ctx)
      else case obj_at ctx obj of
             None \<Rightarrow> None
           | Some ob \<Rightarrow>
               (case Get (attributes ob) member of
                  None \<Rightarrow> Some (None, ctx)
                | Some m \<Rightarrow> bind_self ctx obj m))"

definition Wg_GetAttributeFromBase ::
  "env \<Rightarrow> Wg_Context \<Rightarrow> addr \<Rightarrow> string \<Rightarrow> addr option \<Rightarrow> (addr option \<times> Wg_Context) option" where
  "Wg_GetAttributeFromBase env ctx obj member baseClass =
     (if \<not> IsValidIdentifier env member then assert_failed env (None, ctx)
      else case obj_at ctx obj of
             None \<Rightarrow> None
           | Some ob \<Rightarrow>
               (case (case baseClass of
                        None \<Rightarrow> Some (GetFromBase (attributes ob) member)
                      | Some b \<Rightarrow>
                          (case obj_at ctx b of
                             Some bo \<Rightarrow>
                               (case data bo of
                                  ClassData c \<Rightarrow> Some (Get (instanceAttributes c) member)
                                | _ \<Rightarrow> None)
                           | None \<Rightarrow> None)) of
                  None \<Rightarrow> None
                | Some None \<Rightarrow> Some (None, ctx)
                | Some (Some m) \<Rightarrow> bind_self ctx obj m))"

section \<open>The current exception\<close>

definition Wg_GetCurrentException :: "Wg_Context \<Rightarrow> addr option" where
  "Wg_GetCurrentException ctx = currentException ctx"

definition Wg_ClearCurrentException :: "Wg_Context \<Rightarrow> Wg_Context" where
  "Wg_ClearCurrentException ctx =
     ctx\<lparr>currentException := None, exceptionTrace := [], traceMessage := []\<rparr>"

section \<open>Instance test\<close>

text \<open>
  \<open>Wg_IsInstance\<close> searches the classes of an instance breadth first: the queue starts
  with the instance's \<open>__class__\<close>, and each class checked puts the elements of its
  \<open>__bases__\<close> tuple at the end. The loop has no visited set; \<open>n\<close> bounds its iterations
  (\<open>None\<close> when they do not suffice). Every queued handle is pinned by a guard.
\<close>

definition bases_elements :: "Wg_Context \<Rightarrow> addr option \<Rightarrow> addr list option" where
  "bases_elements ctx bases_attr =
     (case bases_attr of
        None \<Rightarrow> Some []
      | Some b \<Rightarrow>
          (case obj_at ctx b of
             None \<Rightarrow> None
           | Some bo \<Rightarrow>
               if Wg_IsTuple bo
               then (case data bo of VectorData v \<Rightarrow> Some v | _ \<Rightarrow> None)
               else Some []))"

fun IsInstance_loop ::
  "nat \<Rightarrow> env \<Rightarrow> Wg_Context \<Rightarrow> addr list \<Rightarrow> addr list \<Rightarrow> (addr option \<times> Wg_Context) option" where
  "IsInstance_loop 0 env ctx toCheck types = None"
| "IsInstance_loop (Suc n) env ctx [] types = Some (None, ctx)"
| "IsInstance_loop (Suc n) env ctx (front # rest) types =
     (if front \<in> set types
      then (case release env (front # rest) ctx of
              None \<Rightarrow> None
            | Some ctx' \<Rightarrow> Some (Some front, ctx'))
      else (case Wg_HasAttribute env ctx front ''__bases__'' of
              None \<Rightarrow> None
            | Some (bases_attr, ctx1) \<Rightarrow>
                (case bases_elements ctx1 bases_attr of
                   None \<Rightarrow> None
                 | Some new \<Rightarrow>
                     (case Wg_UnprotectObject env front (acquire new ctx1) of
                        None \<Rightarrow> None
                      | Some ctx2 \<Rightarrow> IsInstance_loop n env ctx2 (rest @ new) types))))"

text \<open>The assertion on \<open>types\<close>: every entry is a handle of a class.\<close>

fun types_are_classes :: "Wg_Context \<Rightarrow> addr option list \<Rightarrow> bool option" where
  "types_are_classes ctx [] = Some True"
| "types_are_classes ctx (None # ts) = Some False"
| "types_are_classes ctx (Some t # ts) =
     (case obj_at ctx t of
        None \<Rightarrow> None
      | Some tob \<Rightarrow> if Wg_IsClass tob then types_are_classes ctx ts else Some False)"

definition Wg_IsInstance ::
  "nat \<Rightarrow> env \<Rightarrow> Wg_Context \<Rightarrow> addr \<Rightarrow> addr option list \<Rightarrow> (addr option \<times> Wg_Context) option" where
  "Wg_IsInstance n env ctx instance types =
     (case types_are_classes ctx types of
        None \<Rightarrow> None
      | Some False \<Rightarrow> assert_failed env (None, ctx)
      | Some True \<Rightarrow>
          (case obj_at ctx instance of
             None \<Rightarrow> None
           | Some ob \<Rightarrow>
               (case Get (attributes ob) ''__class__'' of
                  None \<Rightarrow> Some (None, ctx)
                | Some klass \<Rightarrow>
                    (case IsInstance_loop n env (acquire [klass, klass] ctx) [klass] (map the types) of
                       None \<Rightarrow> None
                     | Some (r, ctx1) \<Rightarrow>
                         (case release env [klass] ctx1 of
                            None \<Rightarrow> None
                          | Some ctx2 \<Rightarrow> Some (r, ctx2))))))"

section \<open>The call machinery\<close>

text \<open>The class a kind of exception names: the switch of \<open>Wg_RaiseException\<close>.\<close>

fun exception_class :: "Builtins \<Rightarrow> Wg_Exc \<Rightarrow> addr option" where
  "exception_class b WG_EXC_BASEEXCEPTION = baseException b"
| "exception_class b WG_EXC_SYSTEMEXIT = systemExit b"
| "exception_class b WG_EXC_EXCEPTION = exception b"
| "exception_class b WG_EXC_STOPITERATION = stopIteration b"
| "exception_class b WG_EXC_ARITHMETICERROR = arithmeticError b"
| "exception_class b WG_EXC_OVERFLOWERROR = overflowError b"
| "exception_class b WG_EXC_ZERODIVISIONERROR = zeroDivisionError b"
| "exception_class b WG_EXC_ATTRIBUTEERROR = attributeError b"
| "exception_class b WG_EXC_IMPORTERROR = importError b"
| "exception_class b WG_EXC_LOOKUPERROR = lookupError b"
| "exception_class b WG_EXC_INDEXERROR = indexError b"
| "exception_class b WG_EXC_KEYERROR = keyError b"
| "exception_class b WG_EXC_MEMORYERROR = memoryError b"
| "exception_class b WG_EXC_NAMEERROR = nameError b"
| "exception_class b WG_EXC_OSERROR = osError b"
| "exception_class b WG_EXC_ISADIRECTORYERROR = isADirectoryError b"
| "exception_class b WG_EXC_RUNTIMEERROR = runtimeError b"
| "exception_class b WG_EXC_NOTIMPLEMENTEDERROR = notImplementedError b"
| "exception_class b WG_EXC_RECURSIONERROR = recursionError b"
| "exception_class b WG_EXC_SYNTAXERROR = syntaxError_class b"
| "exception_class b WG_EXC_TYPEERROR = typeError b"
| "exception_class b WG_EXC_VALUEERROR = valueError b"

text \<open>
  The check of the keyword arguments in \<open>Wg_Call\<close>: the message of the TypeError to raise,
  if any. The keys are tested in order, up to the first that is not a string.
\<close>

fun has_non_string_key :: "Wg_Context \<Rightarrow> (addr \<times> addr) list \<Rightarrow> bool option" where
  "has_non_string_key ctx [] = Some False"
| "has_non_string_key ctx ((key, v) # d) =
     (case obj_at ctx key of
        None \<Rightarrow> None
      | Some ko \<Rightarrow> if \<not> Wg_IsString ko then Some True else has_non_string_key ctx d)"

definition kwargs_error :: "Wg_Context \<Rightarrow> addr option \<Rightarrow> string option option" where
  "kwargs_error ctx kwargsDict =
     (case kwargsDict of
        None \<Rightarrow> Some None
      | Some kw \<Rightarrow>
          (case obj_at ctx kw of
             None \<Rightarrow> None
           | Some ko \<Rightarrow>
               if \<not> Wg_IsDictionary ko
               then Some (Some ''Keyword arguments must be a dictionary'')
               else (case data ko of
                       DictData d \<Rightarrow>
                         (case has_non_string_key ctx d of
                            None \<Rightarrow> None
                          | Some True \<Rightarrow>
                              Some (Some ''Keyword arguments dictionary must only contain string keys'')
                          | Some False \<Rightarrow> Some None)
                     | _ \<Rightarrow> None)))"

text \<open>
  What \<open>Wg_Call\<close> reads from the callable: the function pointer, its userdata, the bound
  \<open>self\<close>, the module, and for a function the trace frame to push.
\<close>

definition call_target ::
  "Wg_Obj \<Rightarrow> (Wg_Function \<times> void_ptr \<times> addr option \<times> string \<times> TraceFrame option) option" where
  "call_target cobj =
     (if Wg_IsFunction cobj
      then (case data cobj of
              FuncData fn \<Rightarrow>
                Some (fptr fn, userdata fn, self fn, module fn,
                  Some \<lparr> srcPos = None, lineText = [], frame_module = module fn,
                         frame_func = prettyName fn, syntaxError = False \<rparr>)
            | _ \<Rightarrow> None)
      else (case data cobj of
              ClassData c \<Rightarrow> Some (ctor c, class_userdata c, None, class_module c, None)
            | _ \<Rightarrow> None))"

text \<open>
  The state the callee runs in: callable, arguments and \<open>self\<close> pinned, the trace frame, the
  module, the userdata and the keyword arguments pushed.
\<close>

definition enter_call ::
  "addr \<Rightarrow> addr list \<Rightarrow> addr option \<Rightarrow> void_ptr \<Rightarrow> addr option \<Rightarrow> string \<Rightarrow> TraceFrame option
     \<Rightarrow> Wg_Context \<Rightarrow> Wg_Context" where
  "enter_call callable args kwargsDict ud slf modl frame ctx =
     (let ctx1 = acquire (callable # args) ctx;
          ctx2 = (case frame of
                    Some fr \<Rightarrow> ctx1\<lparr>currentTrace := currentTrace ctx1 @ [fr]\<rparr>
                  | None \<Rightarrow> ctx1);
          ctx3 = (case slf of Some s \<Rightarrow> Wg_ProtectObject s ctx2 | None \<Rightarrow> ctx2)
      in ctx3\<lparr>currentModule := modl # currentModule ctx3,
              ctx_userdata := ctx_userdata ctx3 @ [ud],
              kwargs := kwargs ctx3 @ [kwargsDict]\<rparr>)"

text \<open>
  After the callee: the three stacks are popped (popping an empty one is undefined), the
  trace frame is popped when the callable is a function, and the guards are released.
\<close>

definition leave_call ::
  "env \<Rightarrow> addr \<Rightarrow> addr list \<Rightarrow> addr option \<Rightarrow> Wg_Context \<Rightarrow> Wg_Context option" where
  "leave_call env callable args slf ctx =
     (if kwargs ctx = [] \<or> ctx_userdata ctx = [] \<or> currentModule ctx = [] then None
      else
        let ctx1 = ctx\<lparr>kwargs := butlast (kwargs ctx),
                       ctx_userdata := butlast (ctx_userdata ctx),
                       currentModule := tl (currentModule ctx)\<rparr>
        in (case obj_at ctx1 callable of
              None \<Rightarrow> None
            | Some cobj \<Rightarrow>
                if Wg_IsFunction cobj
                then (if currentTrace ctx1 = [] then None
                      else release env (callable # args @ (case slf of Some s \<Rightarrow> [s] | None \<Rightarrow> []))
                             (ctx1\<lparr>currentTrace := butlast (currentTrace ctx1)\<rparr>))
                else release env (callable # args @ (case slf of Some s \<Rightarrow> [s] | None \<Rightarrow> [])) ctx1))"

definition Wg_GetFunctionUserdata :: "env \<Rightarrow> Wg_Context \<Rightarrow> void_ptr option" where
  "Wg_GetFunctionUserdata env ctx =
     (if kwargs ctx = [] then assert_failed env None
      else if ctx_userdata ctx = [] then None
      else Some (last (ctx_userdata ctx)))"

text \<open>The class an instance is made from: the userdata of the constructor, read as a handle.\<close>

definition class_of_userdata :: "Wg_Context \<Rightarrow> void_ptr \<Rightarrow> Class option" where
  "class_of_userdata ctx ud =
     (case ud of
        None \<Rightarrow> None
      | Some c \<Rightarrow>
          (case obj_at ctx c of
             None \<Rightarrow> None
           | Some co \<Rightarrow> (case data co of ClassData cls \<Rightarrow> Some cls | _ \<Rightarrow> None)))"

definition set_string :: "addr \<Rightarrow> string \<Rightarrow> Wg_Context \<Rightarrow> Wg_Context option" where
  "set_string v val ctx =
     (case obj_at ctx v of
        None \<Rightarrow> None
      | Some vo \<Rightarrow>
          (case data vo of
             StringData _ \<Rightarrow> Some (update_obj v (\<lambda>ob. ob\<lparr>data := StringData val\<rparr>) ctx)
           | _ \<Rightarrow> None))"

definition returning :: "env \<Rightarrow> addr list \<Rightarrow> addr option \<Rightarrow> Wg_Context \<Rightarrow> (addr option \<times> Wg_Context) option" where
  "returning env guards r ctx =
     (case release env guards ctx of None \<Rightarrow> None | Some ctx' \<Rightarrow> Some (r, ctx'))"

text \<open>
  The functions of the call machinery call one another (a call raises, raising constructs an
  exception object by a call, and so on), so they are defined together: \<open>request\<close> names a
  function with its arguments, the body of each function is written over \<open>rt\<close>, the runtime
  it calls into, and \<open>runtime n\<close> ties the knot, \<open>n\<close> bounding the depth to which the calls
  nest. A result is \<open>None\<close> when the calls nest deeper than \<open>n\<close>, when a native function does
  not return, and on undefined behaviour; \<open>Some (r, ctx)\<close> is the handle returned (null is
  \<open>None\<close>, also for a function returning nothing) and the context afterwards.
\<close>

datatype request =
    Call_req addr "addr list" "addr option"
  | CallMethod_req addr string "addr list" "addr option"
  | GetAttribute_req addr string
  | RaiseAttributeError_req addr string
  | RaiseException_req Wg_Exc string
  | RaiseExceptionClass_req "addr option" string
  | RaiseExceptionObject_req addr
  | NewString_req string
  | NewDictionary_req
  | GetKwargs_req
  | NewClass_ctor_req "addr list"

type_synonym result = "(addr option \<times> Wg_Context) option"

definition Wg_Call_body ::
  "(request \<Rightarrow> Wg_Context \<Rightarrow> result) \<Rightarrow> env \<Rightarrow> Wg_Context \<Rightarrow> addr \<Rightarrow> addr list \<Rightarrow> addr option \<Rightarrow> result" where
  "Wg_Call_body rt env ctx callable args kwargsDict =
     (case obj_at ctx callable of
        None \<Rightarrow> None
      | Some cobj \<Rightarrow>
          if Wg_IsFunction cobj \<or> Wg_IsClass cobj
          then (case kwargs_error ctx kwargsDict of
                  None \<Rightarrow> None
                | Some (Some msg) \<Rightarrow>
                    (case rt (RaiseException_req WG_EXC_TYPEERROR msg) ctx of
                       None \<Rightarrow> None
                     | Some (_, ctx') \<Rightarrow> Some (None, ctx'))
                | Some None \<Rightarrow>
                    (case call_target cobj of
                       None \<Rightarrow> None
                     | Some (fp, ud, slf, modl, frame) \<Rightarrow>
                         (case (case fp of
                                  NewClass_ctor \<Rightarrow>
                                    rt (NewClass_ctor_req (case slf of Some s \<Rightarrow> s # args | None \<Rightarrow> args))
                                      (enter_call callable args kwargsDict ud slf modl frame ctx)
                                | Native k \<Rightarrow>
                                    call_native env k
                                      (enter_call callable args kwargsDict ud slf modl frame ctx)
                                      (case slf of Some s \<Rightarrow> s # args | None \<Rightarrow> args)) of
                            None \<Rightarrow> None
                          | Some (ret, ctx5) \<Rightarrow>
                              (case leave_call env callable args slf ctx5 of
                                 None \<Rightarrow> None
                               | Some ctx6 \<Rightarrow> Some (ret, ctx6)))))
          else rt (CallMethod_req callable ''__call__'' args None) ctx)"

definition Wg_CallMethod_body ::
  "(request \<Rightarrow> Wg_Context \<Rightarrow> result) \<Rightarrow> env \<Rightarrow> Wg_Context \<Rightarrow> addr \<Rightarrow> string \<Rightarrow> addr list \<Rightarrow> addr option
     \<Rightarrow> result" where
  "Wg_CallMethod_body rt env ctx obj member args kwargsDict =
     (if \<not> IsValidIdentifier env member then assert_failed env (None, ctx)
      else (case rt (GetAttribute_req obj member) ctx of
              None \<Rightarrow> None
            | Some (None, ctx1) \<Rightarrow> Some (None, ctx1)
            | Some (Some method, ctx1) \<Rightarrow> rt (Call_req method args kwargsDict) ctx1))"

definition Wg_GetAttribute_body ::
  "(request \<Rightarrow> Wg_Context \<Rightarrow> result) \<Rightarrow> env \<Rightarrow> Wg_Context \<Rightarrow> addr \<Rightarrow> string \<Rightarrow> result" where
  "Wg_GetAttribute_body rt env ctx obj member =
     (if \<not> IsValidIdentifier env member then assert_failed env (None, ctx)
      else (case obj_at ctx obj of
              None \<Rightarrow> None
            | Some ob \<Rightarrow>
                (case Get (attributes ob) member of
                   None \<Rightarrow>
                     (case rt (RaiseAttributeError_req obj member) ctx of
                        None \<Rightarrow> None
                      | Some (_, ctx') \<Rightarrow> Some (None, ctx'))
                 | Some m \<Rightarrow> bind_self ctx obj m)))"

definition Wg_RaiseAttributeError_body ::
  "(request \<Rightarrow> Wg_Context \<Rightarrow> result) \<Rightarrow> env \<Rightarrow> Wg_Context \<Rightarrow> addr \<Rightarrow> string \<Rightarrow> result" where
  "Wg_RaiseAttributeError_body rt env ctx obj attribute =
     rt (RaiseException_req WG_EXC_ATTRIBUTEERROR
          ([CHR 0x27] @ WObjTypeToString env ctx obj @ [CHR 0x27] @ '' object has no attribute ''
             @ [CHR 0x27] @ attribute @ [CHR 0x27])) ctx"

definition Wg_RaiseException_body ::
  "(request \<Rightarrow> Wg_Context \<Rightarrow> result) \<Rightarrow> env \<Rightarrow> Wg_Context \<Rightarrow> Wg_Exc \<Rightarrow> string \<Rightarrow> result" where
  "Wg_RaiseException_body rt env ctx exc message =
     rt (RaiseExceptionClass_req (exception_class (builtins ctx) exc) message) ctx"

definition Wg_RaiseExceptionClass_body ::
  "(request \<Rightarrow> Wg_Context \<Rightarrow> result) \<Rightarrow> env \<Rightarrow> Wg_Context \<Rightarrow> addr option \<Rightarrow> string \<Rightarrow> result" where
  "Wg_RaiseExceptionClass_body rt env ctx exc_type message =
     (case exc_type of
        None \<Rightarrow> assert_failed env (None, ctx)
      | Some t \<Rightarrow>
          (case rt (NewString_req message) (Wg_ProtectObject t ctx) of
             None \<Rightarrow> None
           | Some (None, ctx2) \<Rightarrow> returning env [t] None ctx2
           | Some (Some msg, ctx2) \<Rightarrow>
               (case rt (Call_req t [msg] None) ctx2 of
                  None \<Rightarrow> None
                | Some (None, ctx3) \<Rightarrow> returning env [t] None ctx3
                | Some (Some exceptionObject, ctx3) \<Rightarrow>
                    (case rt (RaiseExceptionObject_req exceptionObject) ctx3 of
                       None \<Rightarrow> None
                     | Some (_, ctx4) \<Rightarrow> returning env [t] None ctx4))))"

definition Wg_RaiseExceptionObject_body ::
  "(request \<Rightarrow> Wg_Context \<Rightarrow> result) \<Rightarrow> nat \<Rightarrow> env \<Rightarrow> Wg_Context \<Rightarrow> addr \<Rightarrow> result" where
  "Wg_RaiseExceptionObject_body rt n env ctx exc =
     (case Wg_IsInstance n env ctx exc [baseException (builtins ctx)] of
        None \<Rightarrow> None
      | Some (Some t, ctx1) \<Rightarrow>
          Some (None, ctx1\<lparr>currentException := Some exc,
                           exceptionTrace := map ToOwned (currentTrace ctx1)\<rparr>)
      | Some (None, ctx1) \<Rightarrow>
          rt (RaiseException_req WG_EXC_TYPEERROR ''exceptions must derive from BaseException'') ctx1)"

definition Wg_NewString_body ::
  "(request \<Rightarrow> Wg_Context \<Rightarrow> result) \<Rightarrow> env \<Rightarrow> Wg_Context \<Rightarrow> string \<Rightarrow> result" where
  "Wg_NewString_body rt env ctx val =
     (case str (builtins ctx) of
        None \<Rightarrow> assert_failed env (None, ctx)
      | Some s \<Rightarrow>
          (case rt (Call_req s [] None) ctx of
             None \<Rightarrow> None
           | Some (None, ctx1) \<Rightarrow> Some (None, ctx1)
           | Some (Some v, ctx1) \<Rightarrow>
               (case set_string v val ctx1 of
                  None \<Rightarrow> None
                | Some ctx2 \<Rightarrow> Some (Some v, ctx2))))"

text \<open>\<open>Wg_NewDictionary\<close> as \<open>Wg_GetKwargs\<close> calls it: no keys, no values.\<close>

definition Wg_NewDictionary_body ::
  "(request \<Rightarrow> Wg_Context \<Rightarrow> result) \<Rightarrow> env \<Rightarrow> Wg_Context \<Rightarrow> result" where
  "Wg_NewDictionary_body rt env ctx =
     (case Alloc env ctx of
        (None, ctx1) \<Rightarrow> Some (None, ctx1)
      | (Some dummyKwargs, ctx1) \<Rightarrow>
          (case dict (builtins ctx1) of
             None \<Rightarrow>
               assert_failed env
                 (None, update_obj dummyKwargs (\<lambda>ob. ob\<lparr>type := ''__map'', data := DictData []\<rparr>) ctx1)
           | Some d \<Rightarrow>
               rt (Call_req d [] (Some dummyKwargs))
                 (update_obj dummyKwargs (\<lambda>ob. ob\<lparr>type := ''__map'', data := DictData []\<rparr>) ctx1)))"

definition Wg_GetKwargs_body ::
  "(request \<Rightarrow> Wg_Context \<Rightarrow> result) \<Rightarrow> env \<Rightarrow> Wg_Context \<Rightarrow> result" where
  "Wg_GetKwargs_body rt env ctx =
     (if kwargs ctx = [] then assert_failed env (None, ctx)
      else (case last (kwargs ctx) of
              Some kw \<Rightarrow> Some (Some kw, ctx)
            | None \<Rightarrow>
                (case rt NewDictionary_req ctx of
                   None \<Rightarrow> None
                 | Some (d, ctx1) \<Rightarrow>
                     if kwargs ctx1 = [] then None
                     else Some (d, ctx1\<lparr>kwargs := butlast (kwargs ctx1) @ [d]\<rparr>))))"

text \<open>
  The constructor \<open>Wg_NewClass\<close> gives a class: allocate the instance, give it a copy of the
  class's instance attributes and the class's name as type tag, and forward to \<open>__init__\<close>.
\<close>

definition NewClass_ctor_body ::
  "(request \<Rightarrow> Wg_Context \<Rightarrow> result) \<Rightarrow> env \<Rightarrow> Wg_Context \<Rightarrow> addr list \<Rightarrow> result" where
  "NewClass_ctor_body rt env ctx args =
     (case Wg_GetFunctionUserdata env ctx of
        None \<Rightarrow> None
      | Some classObj \<Rightarrow>
          (case Alloc env ctx of
             (None, ctx1) \<Rightarrow> Some (None, ctx1)
           | (Some inst, ctx1) \<Rightarrow>
               (case class_of_userdata ctx1 classObj of
                  None \<Rightarrow> None
                | Some cls \<Rightarrow>
                    (case Wg_HasAttribute env
                            (update_obj inst
                               (\<lambda>ob. ob\<lparr>attributes := Copy (instanceAttributes cls), type := name cls\<rparr>)
                               (Wg_ProtectObject inst ctx1))
                            inst ''__init__'' of
                       None \<Rightarrow> None
                     | Some (None, ctx4) \<Rightarrow> returning env [inst] (Some inst) ctx4
                     | Some (Some init, ctx4) \<Rightarrow>
                         (case obj_at ctx4 init of
                            None \<Rightarrow> None
                          | Some io \<Rightarrow>
                              if Wg_IsFunction io
                              then (case rt GetKwargs_req ctx4 of
                                      None \<Rightarrow> None
                                    | Some (None, ctx5) \<Rightarrow> returning env [inst] None ctx5
                                    | Some (Some kw, ctx5) \<Rightarrow>
                                        (case rt (Call_req init args (Some kw)) ctx5 of
                                           None \<Rightarrow> None
                                         | Some (None, ctx6) \<Rightarrow> returning env [inst] None ctx6
                                         | Some (Some ret, ctx6) \<Rightarrow>
                                             if \<not> Wg_IsNone ctx6 ret
                                             then (case rt (RaiseException_req WG_EXC_TYPEERROR
                                                          ''__init__() returned a non NoneType type'') ctx6 of
                                                     None \<Rightarrow> None
                                                   | Some (_, ctx7) \<Rightarrow> returning env [inst] None ctx7)
                                             else returning env [inst] (Some inst) ctx6))
                              else returning env [inst] (Some inst) ctx4)))))"

definition step ::
  "(request \<Rightarrow> Wg_Context \<Rightarrow> result) \<Rightarrow> nat \<Rightarrow> env \<Rightarrow> request \<Rightarrow> Wg_Context \<Rightarrow> result" where
  "step rt n env req ctx =
     (case req of
        Call_req callable args kwargsDict \<Rightarrow> Wg_Call_body rt env ctx callable args kwargsDict
      | CallMethod_req obj member args kwargsDict \<Rightarrow>
          Wg_CallMethod_body rt env ctx obj member args kwargsDict
      | GetAttribute_req obj member \<Rightarrow> Wg_GetAttribute_body rt env ctx obj member
      | RaiseAttributeError_req obj attribute \<Rightarrow> Wg_RaiseAttributeError_body rt env ctx obj attribute
      | RaiseException_req exc message \<Rightarrow> Wg_RaiseException_body rt env ctx exc message
      | RaiseExceptionClass_req exc_type message \<Rightarrow>
          Wg_RaiseExceptionClass_body rt env ctx exc_type message
      | RaiseExceptionObject_req exc \<Rightarrow> Wg_RaiseExceptionObject_body rt n env ctx exc
      | NewString_req val \<Rightarrow> Wg_NewString_body rt env ctx val
      | NewDictionary_req \<Rightarrow> Wg_NewDictionary_body rt env ctx
      | GetKwargs_req \<Rightarrow> Wg_GetKwargs_body rt env ctx
      | NewClass_ctor_req args \<Rightarrow> NewClass_ctor_body rt env ctx args)"

primrec runtime :: "nat \<Rightarrow> env \<Rightarrow> request \<Rightarrow> Wg_Context \<Rightarrow> result" where
  "runtime 0 env = (\<lambda>req ctx. None)"
| "runtime (Suc n) env = step (runtime n env) n env"

definition Wg_Call ::
  "nat \<Rightarrow> env \<Rightarrow> Wg_Context \<Rightarrow> addr \<Rightarrow> addr list \<Rightarrow> addr option \<Rightarrow> result" where
  "Wg_Call n env ctx callable args kwargsDict = runtime n env (Call_req callable args kwargsDict) ctx"

definition Wg_CallMethod ::
  "nat \<Rightarrow> env \<Rightarrow> Wg_Context \<Rightarrow> addr \<Rightarrow> string \<Rightarrow> addr list \<Rightarrow> addr option \<Rightarrow> result" where
  "Wg_CallMethod n env ctx obj member args kwargsDict =
     runtime n env (CallMethod_req obj member args kwargsDict) ctx"

definition Wg_GetAttribute :: "nat \<Rightarrow> env \<Rightarrow> Wg_Context \<Rightarrow> addr \<Rightarrow> string \<Rightarrow> result" where
  "Wg_GetAttribute n env ctx obj member = runtime n env (GetAttribute_req obj member) ctx"

definition Wg_RaiseAttributeError :: "nat \<Rightarrow> env \<Rightarrow> Wg_Context \<Rightarrow> addr \<Rightarrow> string \<Rightarrow> Wg_Context option" where
  "Wg_RaiseAttributeError n env ctx obj attribute =
     map_option snd (runtime n env (RaiseAttributeError_req obj attribute) ctx)"

definition Wg_RaiseException :: "nat \<Rightarrow> env \<Rightarrow> Wg_Context \<Rightarrow> Wg_Exc \<Rightarrow> string \<Rightarrow> Wg_Context option" where
  "Wg_RaiseException n env ctx exc message =
     map_option snd (runtime n env (RaiseException_req exc message) ctx)"

definition Wg_RaiseExceptionClass ::
  "nat \<Rightarrow> env \<Rightarrow> Wg_Context \<Rightarrow> addr option \<Rightarrow> string \<Rightarrow> Wg_Context option" where
  "Wg_RaiseExceptionClass n env ctx exc_type message =
     map_option snd (runtime n env (RaiseExceptionClass_req exc_type message) ctx)"

definition Wg_RaiseExceptionObject :: "nat \<Rightarrow> env \<Rightarrow> Wg_Context \<Rightarrow> addr \<Rightarrow> Wg_Context option" where
  "Wg_RaiseExceptionObject n env ctx exc =
     map_option snd (runtime n env (RaiseExceptionObject_req exc) ctx)"

definition Wg_NewString :: "nat \<Rightarrow> env \<Rightarrow> Wg_Context \<Rightarrow> string \<Rightarrow> result" where
  "Wg_NewString n env ctx val = runtime n env (NewString_req val) ctx"

definition Wg_NewDictionary :: "nat \<Rightarrow> env \<Rightarrow> Wg_Context \<Rightarrow> result" where
  "Wg_NewDictionary n env ctx = runtime n env NewDictionary_req ctx"

definition Wg_GetKwargs :: "nat \<Rightarrow> env \<Rightarrow> Wg_Context \<Rightarrow> result" where
  "Wg_GetKwargs n env ctx = runtime n env GetKwargs_req ctx"

definition NewClass_ctor_run :: "nat \<Rightarrow> env \<Rightarrow> Wg_Context \<Rightarrow> addr list \<Rightarrow> result" where
  "NewClass_ctor_run n env ctx args = runtime n env (NewClass_ctor_req args) ctx"

section \<open>Iteration\<close>

text \<open>
  \<open>Wg_Iterate\<close> gets an iterator from \<open>__iter__\<close> and calls \<open>__next__\<close> until an exception is
  pending. The callback receives the value yielded and says whether to go on; \<open>n\<close> bounds the
  iterations as well.
\<close>

fun Wg_Iterate_loop ::
  "nat \<Rightarrow> env \<Rightarrow> Wg_Context \<Rightarrow> addr \<Rightarrow> (addr \<Rightarrow> Wg_Context \<Rightarrow> (bool \<times> Wg_Context) option)
     \<Rightarrow> (bool \<times> Wg_Context) option" where
  "Wg_Iterate_loop 0 env ctx iter callback = None"
| "Wg_Iterate_loop (Suc n) env ctx iter callback =
     (case Wg_CallMethod n env ctx iter ''__next__'' [] None of
        None \<Rightarrow> None
      | Some (yielded, ctx1) \<Rightarrow>
          (case Wg_GetCurrentException ctx1 of
             Some exc \<Rightarrow>
               (case Wg_IsInstance n env ctx1 exc [stopIteration (builtins ctx1)] of
                  None \<Rightarrow> None
                | Some (Some t, ctx2) \<Rightarrow> Some (True, Wg_ClearCurrentException ctx2)
                | Some (None, ctx2) \<Rightarrow> Some (False, ctx2))
           | None \<Rightarrow>
               (case yielded of
                  None \<Rightarrow> assert_failed env (False, ctx1)
                | Some y \<Rightarrow>
                    (case callback y (Wg_ProtectObject y ctx1) of
                       None \<Rightarrow> None
                     | Some (go_on, ctx2) \<Rightarrow>
                         (case release env [y] ctx2 of
                            None \<Rightarrow> None
                          | Some ctx3 \<Rightarrow>
                              if \<not> go_on then Some (Wg_GetCurrentException ctx2 = None, ctx3)
                              else Wg_Iterate_loop n env ctx3 iter callback)))))"


section \<open>Operators\<close>

datatype Wg_UnOp =
    WG_UOP_POS | WG_UOP_NEG | WG_UOP_BITNOT | WG_UOP_NOT | WG_UOP_HASH | WG_UOP_LEN
  | WG_UOP_BOOL | WG_UOP_INT | WG_UOP_FLOAT | WG_UOP_STR | WG_UOP_REPR | WG_UOP_INDEX

datatype Wg_BinOp =
    WG_BOP_ADD | WG_BOP_SUB | WG_BOP_MUL | WG_BOP_DIV | WG_BOP_FLOORDIV | WG_BOP_MOD
  | WG_BOP_POW | WG_BOP_BITAND | WG_BOP_BITOR | WG_BOP_BITXOR | WG_BOP_SHL | WG_BOP_SHR
  | WG_BOP_IN | WG_BOP_NOTIN | WG_BOP_EQ | WG_BOP_NE | WG_BOP_LT | WG_BOP_LE | WG_BOP_GT
  | WG_BOP_GE | WG_BOP_AND | WG_BOP_OR

definition call_builtin ::
  "nat \<Rightarrow> env \<Rightarrow> Wg_Context \<Rightarrow> addr option \<Rightarrow> addr \<Rightarrow> result" where
  "call_builtin n env ctx callable arg =
     (case callable of
        None \<Rightarrow> assert_failed env (None, ctx)
      | Some c \<Rightarrow> Wg_Call n env ctx c [arg] None)"

text \<open>The switch of \<open>Wg_UnaryOp\<close> has no case for \<open>WG_UOP_NOT\<close>: it is unreachable code.\<close>

definition Wg_UnaryOp :: "nat \<Rightarrow> env \<Rightarrow> Wg_Context \<Rightarrow> Wg_UnOp \<Rightarrow> addr \<Rightarrow> result" where
  "Wg_UnaryOp n env ctx op arg =
     (case op of
        WG_UOP_POS \<Rightarrow> Wg_CallMethod n env ctx arg ''__pos__'' [] None
      | WG_UOP_NEG \<Rightarrow> Wg_CallMethod n env ctx arg ''__neg__'' [] None
      | WG_UOP_BITNOT \<Rightarrow> Wg_CallMethod n env ctx arg ''__invert__'' [] None
      | WG_UOP_HASH \<Rightarrow> call_builtin n env ctx (hash (builtins ctx)) arg
      | WG_UOP_LEN \<Rightarrow> call_builtin n env ctx (len (builtins ctx)) arg
      | WG_UOP_BOOL \<Rightarrow> call_builtin n env ctx (bool' (builtins ctx)) arg
      | WG_UOP_INT \<Rightarrow> call_builtin n env ctx (int' (builtins ctx)) arg
      | WG_UOP_FLOAT \<Rightarrow> call_builtin n env ctx (float' (builtins ctx)) arg
      | WG_UOP_STR \<Rightarrow> call_builtin n env ctx (str (builtins ctx)) arg
      | WG_UOP_REPR \<Rightarrow> call_builtin n env ctx (repr (builtins ctx)) arg
      | WG_UOP_INDEX \<Rightarrow>
          (case Wg_CallMethod n env ctx arg ''__index__'' [] None of
             None \<Rightarrow> None
           | Some (None, ctx1) \<Rightarrow> Some (None, ctx1)
           | Some (Some index, ctx1) \<Rightarrow>
               (case obj_at ctx1 index of
                  None \<Rightarrow> None
                | Some io \<Rightarrow>
                    if \<not> Wg_IsInt io
                    then (case Wg_RaiseException n env ctx1 WG_EXC_TYPEERROR
                                 ''__index__() returned a non integer type'' of
                            None \<Rightarrow> None
                          | Some ctx2 \<Rightarrow> Some (None, ctx2))
                    else Some (Some index, ctx1)))
      | WG_UOP_NOT \<Rightarrow> None)"

fun OP_METHOD_NAMES :: "Wg_BinOp \<Rightarrow> string option" where
  "OP_METHOD_NAMES WG_BOP_ADD = Some ''__add__''"
| "OP_METHOD_NAMES WG_BOP_SUB = Some ''__sub__''"
| "OP_METHOD_NAMES WG_BOP_MUL = Some ''__mul__''"
| "OP_METHOD_NAMES WG_BOP_DIV = Some ''__truediv__''"
| "OP_METHOD_NAMES WG_BOP_FLOORDIV = Some ''__floordiv__''"
| "OP_METHOD_NAMES WG_BOP_MOD = Some ''__mod__''"
| "OP_METHOD_NAMES WG_BOP_POW = Some ''__pow__''"
| "OP_METHOD_NAMES WG_BOP_BITAND = Some ''__and__''"
| "OP_METHOD_NAMES WG_BOP_BITOR = Some ''__or__''"
| "OP_METHOD_NAMES WG_BOP_BITXOR = Some ''__not__''"
| "OP_METHOD_NAMES WG_BOP_SHL = Some ''__lshift__''"
| "OP_METHOD_NAMES WG_BOP_SHR = Some ''__rshift__''"
| "OP_METHOD_NAMES WG_BOP_IN = Some ''__contains__''"
| "OP_METHOD_NAMES WG_BOP_EQ = Some ''__eq__''"
| "OP_METHOD_NAMES WG_BOP_NE = Some ''__ne__''"
| "OP_METHOD_NAMES WG_BOP_LT = Some ''__lt__''"
| "OP_METHOD_NAMES WG_BOP_LE = Some ''__le__''"
| "OP_METHOD_NAMES WG_BOP_GT = Some ''__gt__''"
| "OP_METHOD_NAMES WG_BOP_GE = Some ''__ge__''"
| "OP_METHOD_NAMES WG_BOP_NOTIN = None"
| "OP_METHOD_NAMES WG_BOP_AND = None"
| "OP_METHOD_NAMES WG_BOP_OR = None"

definition Wg_GetBool :: "env \<Rightarrow> Wg_Context \<Rightarrow> addr \<Rightarrow> bool option" where
  "Wg_GetBool env ctx obj =
     (if Some obj = true' (builtins ctx) \<or> Some obj = false' (builtins ctx)
      then (case obj_at ctx obj of
              None \<Rightarrow> None
            | Some ob \<Rightarrow> (case data ob of BoolData b \<Rightarrow> Some b | _ \<Rightarrow> None))
      else assert_failed env False)"

text \<open>
  The comparison operators and \<open>in\<close>: the method is called, and its result goes to
  \<open>Wg_IsBool\<close> as it is, null or not. When \<open>Wg_IsBool\<close> says no, the context to raise in is
  read through the result.
\<close>

definition compare_op :: "nat \<Rightarrow> env \<Rightarrow> Wg_Context \<Rightarrow> string \<Rightarrow> addr \<Rightarrow> addr \<Rightarrow> result" where
  "compare_op n env ctx method lhs rhs =
     (case Wg_CallMethod n env ctx lhs method [rhs] None of
        None \<Rightarrow> None
      | Some (boolResult, ctx1) \<Rightarrow>
          (case Wg_IsBool env ctx1 boolResult of
             None \<Rightarrow> None
           | Some False \<Rightarrow>
               (case boolResult of
                  None \<Rightarrow> None
                | Some r \<Rightarrow>
                    (case Wg_RaiseException n env ctx1 WG_EXC_TYPEERROR
                            (method @ ''() returned a non bool type'') of
                       None \<Rightarrow> None
                     | Some ctx2 \<Rightarrow> Some (None, ctx2)))
           | Some True \<Rightarrow> Some (boolResult, ctx1)))"

definition logical_op :: "nat \<Rightarrow> env \<Rightarrow> Wg_Context \<Rightarrow> bool \<Rightarrow> addr \<Rightarrow> addr \<Rightarrow> result" where
  "logical_op n env ctx short lhs rhs =
     (case Wg_UnaryOp n env ctx WG_UOP_BOOL lhs of
        None \<Rightarrow> None
      | Some (None, ctx1) \<Rightarrow> Some (None, ctx1)
      | Some (Some lhsb, ctx1) \<Rightarrow>
          (case Wg_GetBool env ctx1 lhsb of
             None \<Rightarrow> None
           | Some b \<Rightarrow>
               if b = short then Some (Some lhsb, ctx1)
               else Wg_UnaryOp n env ctx1 WG_UOP_BOOL rhs))"

fun Wg_BinaryOp :: "nat \<Rightarrow> env \<Rightarrow> Wg_Context \<Rightarrow> Wg_BinOp \<Rightarrow> addr \<Rightarrow> addr \<Rightarrow> result" where
  "Wg_BinaryOp 0 env ctx op lhs rhs = None"
| "Wg_BinaryOp (Suc n) env ctx op lhs rhs =
     (if op \<in> {WG_BOP_ADD, WG_BOP_SUB, WG_BOP_MUL, WG_BOP_DIV, WG_BOP_FLOORDIV, WG_BOP_MOD,
                WG_BOP_POW, WG_BOP_BITAND, WG_BOP_BITOR, WG_BOP_BITXOR, WG_BOP_SHL, WG_BOP_SHR}
      then Wg_CallMethod n env ctx lhs (the (OP_METHOD_NAMES op)) [rhs] None
      else if op \<in> {WG_BOP_EQ, WG_BOP_NE, WG_BOP_LT, WG_BOP_LE, WG_BOP_GT, WG_BOP_GE}
      then compare_op n env ctx (the (OP_METHOD_NAMES op)) lhs rhs
      else if op = WG_BOP_IN
      then compare_op n env ctx (the (OP_METHOD_NAMES op)) rhs lhs
      else if op = WG_BOP_NOTIN
      then (case Wg_BinaryOp n env ctx WG_BOP_IN lhs rhs of
              None \<Rightarrow> None
            | Some (None, ctx1) \<Rightarrow> Some (None, ctx1)
            | Some (Some in_result, ctx1) \<Rightarrow> Wg_UnaryOp n env ctx1 WG_UOP_NOT in_result)
      else if op = WG_BOP_AND then logical_op n env ctx False lhs rhs
      else logical_op n env ctx True lhs rhs)"

section \<open>Modules\<close>

definition set_var :: "string \<Rightarrow> addr \<Rightarrow> (string \<times> addr) list \<Rightarrow> (string \<times> addr) list" where
  "set_var nm v g =
     (if nm \<in> fst ` set g then map (\<lambda>(k, w). if k = nm then (k, v) else (k, w)) g
      else g @ [(nm, v)])"

text \<open>
  \<open>Wg_SetGlobal\<close> writes into the globals of the module on top of \<open>currentModule\<close>;
  \<open>globals.at\<close> throws when that module has no entry.
\<close>

definition Wg_SetGlobal :: "env \<Rightarrow> string \<Rightarrow> addr \<Rightarrow> Wg_Context \<Rightarrow> Wg_Context option" where
  "Wg_SetGlobal env nm v ctx =
     (if \<not> IsValidIdentifier env nm then assert_failed env ctx
      else (case currentModule ctx of
              [] \<Rightarrow> None
            | modl # _ \<Rightarrow>
                (case map_of (globals ctx) modl of
                   None \<Rightarrow> None
                 | Some g \<Rightarrow>
                     Some (ctx\<lparr>globals :=
                       map (\<lambda>(m, gm). if m = modl then (m, set_var nm v gm) else (m, gm))
                         (globals ctx)\<rparr>))))"

fun set_globals :: "env \<Rightarrow> (string \<times> addr) list \<Rightarrow> Wg_Context \<Rightarrow> Wg_Context option" where
  "set_globals env [] ctx = Some ctx"
| "set_globals env ((var, val) # vars) ctx =
     (case Wg_SetGlobal env var val ctx of
        None \<Rightarrow> None
      | Some ctx' \<Rightarrow> set_globals env vars ctx')"

definition LoadFileModule :: "nat \<Rightarrow> env \<Rightarrow> Wg_Context \<Rightarrow> string \<Rightarrow> (bool \<times> Wg_Context) option" where
  "LoadFileModule n env ctx modl =
     (case ReadFromFile env (importPath ctx @ modl @ ''.py'') of
        None \<Rightarrow>
          (case Wg_RaiseException n env ctx WG_EXC_IMPORTERROR
                  (''No module named '' @ [CHR 0x27] @ modl @ [CHR 0x27]) of
             None \<Rightarrow> None
           | Some ctx' \<Rightarrow> Some (False, ctx'))
      | Some source \<Rightarrow>
          (case Compile env ctx source modl modl False of
             (None, ctx1) \<Rightarrow> Some (False, ctx1)
           | (Some fn, ctx1) \<Rightarrow>
               (case Wg_Call n env ctx1 fn [] None of
                  None \<Rightarrow> None
                | Some (r, ctx2) \<Rightarrow> Some (r \<noteq> None, ctx2))))"

text \<open>
  \<open>LoadModule\<close> registers the module in \<open>globals\<close> and makes it the current module before
  it runs the loader (a registered loader, or else the file of that name), and erases the
  entry when the loader fails. A module already in \<open>globals\<close> is not loaded again.
\<close>

definition register_module :: "string \<Rightarrow> Wg_Context \<Rightarrow> Wg_Context" where
  "register_module nm ctx =
     ctx\<lparr>globals := globals ctx @ [(nm, [])], currentModule := nm # currentModule ctx\<rparr>"

definition run_loader :: "nat \<Rightarrow> env \<Rightarrow> Wg_Context \<Rightarrow> string \<Rightarrow> (bool \<times> Wg_Context) option" where
  "run_loader n env ctx nm =
     (case map_of (moduleLoaders ctx) nm of
        Some loader \<Rightarrow> call_loader env loader ctx
      | None \<Rightarrow> LoadFileModule n env ctx nm)"

fun LoadModule :: "nat \<Rightarrow> env \<Rightarrow> Wg_Context \<Rightarrow> string \<Rightarrow> (bool \<times> Wg_Context) option"
  and Wg_ImportAllFromModule :: "nat \<Rightarrow> env \<Rightarrow> Wg_Context \<Rightarrow> string \<Rightarrow> (bool \<times> Wg_Context) option"
where
  "LoadModule 0 env ctx nm = None"
| "LoadModule (Suc n) env ctx nm =
     (if nm \<notin> fst ` set (globals ctx)
      then (case (if nm \<noteq> ''__builtins__''
                  then Wg_ImportAllFromModule n env (register_module nm ctx) ''__builtins__''
                  else Some (True, register_module nm ctx)) of
              None \<Rightarrow> None
            | Some (imported, ctx2) \<Rightarrow>
                (case run_loader n env ctx2 nm of
                   None \<Rightarrow> None
                 | Some (success, ctx3) \<Rightarrow>
                     if currentModule ctx3 = [] then None
                     else if \<not> success
                     then Some (False, ctx3\<lparr>currentModule := tl (currentModule ctx3),
                                           globals := filter (\<lambda>(m, g). m \<noteq> nm) (globals ctx3)\<rparr>)
                     else Some (True, ctx3\<lparr>currentModule := tl (currentModule ctx3)\<rparr>)))
      else Some (True, ctx))"
| "Wg_ImportAllFromModule 0 env ctx modl = None"
| "Wg_ImportAllFromModule (Suc n) env ctx modl =
     (if \<not> IsValidIdentifier env modl then assert_failed env (False, ctx)
      else (case LoadModule n env ctx modl of
              None \<Rightarrow> None
            | Some (False, ctx1) \<Rightarrow> Some (False, ctx1)
            | Some (True, ctx1) \<Rightarrow>
                (case map_of (globals ctx1) modl of
                   None \<Rightarrow> None
                 | Some vars \<Rightarrow>
                     (case set_globals env vars ctx1 of
                        None \<Rightarrow> None
                      | Some ctx2 \<Rightarrow> Some (True, ctx2)))))"

section \<open>The collector\<close>

text \<open>
  The handles \<open>Wg_CollectGarbage\<close> pushes for an object it traverses: by type tag the
  elements of a tuple or list, the keys and values of a dictionary, the elements of a set,
  the \<open>self\<close> of a function, the bases and instance attributes of a class; then the entries
  of the attribute table and the linked references.
\<close>

definition payload_children :: "Wg_Obj \<Rightarrow> addr list option" where
  "payload_children obj =
     (if Wg_IsTuple obj \<or> Wg_IsList obj
      then (case data obj of VectorData v \<Rightarrow> Some v | _ \<Rightarrow> None)
      else if Wg_IsDictionary obj
      then (case data obj of DictData d \<Rightarrow> Some (concat (map (\<lambda>(key, val). [key, val]) d)) | _ \<Rightarrow> None)
      else if Wg_IsSet obj
      then (case data obj of SetData xs \<Rightarrow> Some xs | _ \<Rightarrow> None)
      else if Wg_IsFunction obj
      then (case data obj of
              FuncData fn \<Rightarrow> Some (case self fn of Some s \<Rightarrow> [s] | None \<Rightarrow> [])
            | _ \<Rightarrow> None)
      else if Wg_IsClass obj
      then (case data obj of
              ClassData c \<Rightarrow> Some (bases c @ ForEach (instanceAttributes c))
            | _ \<Rightarrow> None)
      else Some [])"

definition children :: "Wg_Obj \<Rightarrow> addr list option" where
  "children obj =
     (case payload_children obj of
        None \<Rightarrow> None
      | Some cs \<Rightarrow> Some (cs @ ForEach (attributes obj) @ references obj))"

text \<open>
  The marking loop. \<open>inUse\<close> is the deque, its back at the head of the list (the loop takes
  from the back and pushes at the back); \<open>traversed\<close> is the set of handles visited.
\<close>

function mark :: "(addr \<times> Wg_Obj) list \<Rightarrow> addr list \<Rightarrow> addr set \<Rightarrow> addr set option" where
  "mark m [] traversed = Some traversed"
| "mark m (obj # inUse) traversed =
     (if obj \<in> traversed then mark m inUse traversed
      else (case map_of m obj of
              None \<Rightarrow> None
            | Some ob \<Rightarrow>
                (case children ob of
                   None \<Rightarrow> None
                 | Some cs \<Rightarrow> mark m (rev cs @ inUse) (insert obj traversed))))"
  by pat_completeness auto
termination
proof (relation "measures [\<lambda>(m, inUse, traversed). card (fst ` set m - traversed),
                            \<lambda>(m, inUse, traversed). length inUse]")
  show "wf (measures [\<lambda>(m, inUse, traversed). card (fst ` set m - traversed),
                      \<lambda>(m, inUse, traversed). length inUse])"
    by simp
next
  fix m :: "(addr \<times> Wg_Obj) list" and obj inUse and traversed :: "addr set"
  assume "obj \<in> traversed"
  then show "((m, inUse, traversed), (m, obj # inUse, traversed))
      \<in> measures [\<lambda>(m, inUse, traversed). card (fst ` set m - traversed),
                   \<lambda>(m, inUse, traversed). length inUse]"
    by simp
next
  fix m :: "(addr \<times> Wg_Obj) list" and obj inUse and traversed :: "addr set" and ob cs
  assume "obj \<notin> traversed" and "map_of m obj = Some ob"
  then have "obj \<in> fst ` set m - traversed"
    by (auto dest: map_of_SomeD intro: rev_image_eqI)
  then have "card (fst ` set m - insert obj traversed) < card (fst ` set m - traversed)"
    by (metis Diff_insert card_Diff1_less finite_Diff finite_imageI finite_set)
  then show "((m, rev cs @ inUse, insert obj traversed), (m, obj # inUse, traversed))
      \<in> measures [\<lambda>(m, inUse, traversed). card (fst ` set m - traversed),
                   \<lambda>(m, inUse, traversed). length inUse]"
    by simp
qed

text \<open>The roots, in the order the collector pushes them (the last pushed is taken first).\<close>

definition roots :: "Wg_Context \<Rightarrow> addr list" where
  "roots ctx =
     (case currentException ctx of Some e \<Rightarrow> [e] | None \<Rightarrow> [])
     @ map fst (protectedObjects ctx)
     @ concat (map (\<lambda>(modl, vars). map snd vars) (globals ctx))
     @ concat (map (\<lambda>obj. case obj of Some a \<Rightarrow> [a] | None \<Rightarrow> []) (kwargs ctx))
     @ concat (map (\<lambda>obj. case obj of Some a \<Rightarrow> [a] | None \<Rightarrow> []) (GetAll (builtins ctx)))
     @ (case ctx_argv ctx of Some a \<Rightarrow> [a] | None \<Rightarrow> [])"

text \<open>
  The sweep: the finalizers of the objects not traversed run, in arena order; then those
  objects leave the arena.
\<close>

definition finalizer_calls :: "addr set \<Rightarrow> (addr \<times> Wg_Obj) list \<Rightarrow> (addr \<times> nat \<times> void_ptr) list" where
  "finalizer_calls traversed m =
     concat (map (\<lambda>(a, ob). case fin_fptr (finalizer ob) of
                              Some f \<Rightarrow> if a \<notin> traversed then [(a, f, fin_userdata (finalizer ob))] else []
                            | None \<Rightarrow> []) m)"

definition Wg_CollectGarbage :: "Wg_Context \<Rightarrow> Wg_Context option" where
  "Wg_CollectGarbage ctx =
     (case mark (mem ctx) (rev (roots ctx)) {} of
        None \<Rightarrow> None
      | Some traversed \<Rightarrow>
          Some (ctx\<lparr>finalized := finalized ctx @ finalizer_calls traversed (mem ctx),
                    mem := filter (\<lambda>(a, ob). a \<in> traversed) (mem ctx),
                    lastObjectCountAfterGC := length (filter (\<lambda>(a, ob). a \<in> traversed) (mem ctx))\<rparr>))"

section \<open>Reachability\<close>

text \<open>
  The edges the specification lists for the collector's traversal: the elements of a tuple or
  list, the keys and values of a map, the elements of a set, the \<open>self\<close> of a bound function,
  the bases and the instance attributes of a class; every entry of the attribute table; the
  linked references. And its roots: the current exception, the protected objects, the
  globals of every module, the keyword arguments in flight, the builtins, the argv tuple.
\<close>

definition payload_edge :: "Wg_Obj \<Rightarrow> addr \<Rightarrow> bool" where
  "payload_edge ob b =
     ((Wg_IsTuple ob \<or> Wg_IsList ob) \<and> (\<exists>v. data ob = VectorData v \<and> b \<in> set v)
      \<or> Wg_IsDictionary ob \<and> (\<exists>d. data ob = DictData d \<and> (b \<in> fst ` set d \<or> b \<in> snd ` set d))
      \<or> Wg_IsSet ob \<and> (\<exists>xs. data ob = SetData xs \<and> b \<in> set xs)
      \<or> Wg_IsFunction ob \<and> (\<exists>fn. data ob = FuncData fn \<and> self fn = Some b)
      \<or> Wg_IsClass ob \<and> (\<exists>c. data ob = ClassData c \<and>
           (b \<in> set (bases c) \<or> b \<in> set (ForEach (instanceAttributes c)))))"

definition edge :: "Wg_Context \<Rightarrow> addr \<Rightarrow> addr \<Rightarrow> bool" where
  "edge ctx a b =
     (\<exists>ob. obj_at ctx a = Some ob \<and>
        (payload_edge ob b \<or> b \<in> set (ForEach (attributes ob)) \<or> b \<in> set (references ob)))"

definition is_root :: "Wg_Context \<Rightarrow> addr \<Rightarrow> bool" where
  "is_root ctx r =
     (currentException ctx = Some r
      \<or> r \<in> fst ` set (protectedObjects ctx)
      \<or> (\<exists>modl vars var. (modl, vars) \<in> set (globals ctx) \<and> (var, r) \<in> set vars)
      \<or> Some r \<in> set (kwargs ctx)
      \<or> Some r \<in> set (GetAll (builtins ctx))
      \<or> ctx_argv ctx = Some r)"

text \<open>
  A heap is closed when every root and every handle stored in an object of the arena is an
  address of the arena, and every payload is of the type its tag announces.
\<close>

definition closed_heap :: "Wg_Context \<Rightarrow> bool" where
  "closed_heap ctx =
     (set (roots ctx) \<subseteq> fst ` set (mem ctx) \<and>
      (\<forall>(a, ob) \<in> set (mem ctx). \<exists>cs. children ob = Some cs \<and> set cs \<subseteq> fst ` set (mem ctx)))"

section \<open>Instances, by the class graph\<close>

text \<open>
  What the specification means by an instance of a class: the \<open>__class__\<close> of the value is
  the class, or reaches it through \<open>__bases__\<close> tuples.
\<close>

definition bases_edge :: "Wg_Context \<Rightarrow> addr \<Rightarrow> addr \<Rightarrow> bool" where
  "bases_edge ctx c b =
     (\<exists>co t bo v. obj_at ctx c = Some co \<and> Get (attributes co) ''__bases__'' = Some t
        \<and> obj_at ctx t = Some bo \<and> Wg_IsTuple bo \<and> data bo = VectorData v \<and> b \<in> set v)"

definition instance_of :: "Wg_Context \<Rightarrow> addr \<Rightarrow> addr \<Rightarrow> bool" where
  "instance_of ctx v t =
     (\<exists>ob klass. obj_at ctx v = Some ob \<and> Get (attributes ob) ''__class__'' = Some klass
        \<and> (bases_edge ctx)\<^sup>*\<^sup>* klass t)"

text \<open>
  The test changes the arena only by binding methods, and the pins; the class graph reads
  neither. \<open>class_view\<close> is what the graph reads of an object.
\<close>

definition has_func :: "Wg_Obj \<Rightarrow> bool" where
  "has_func ob = (case data ob of FuncData f \<Rightarrow> True | _ \<Rightarrow> False)"

definition class_view ::
  "Wg_Context \<Rightarrow> addr \<Rightarrow> (AttributeTable \<times> Data option \<times> bool \<times> bool) option" where
  "class_view ctx a =
     map_option
       (\<lambda>ob. (attributes ob, if Wg_IsTuple ob then Some (data ob) else None,
              Wg_IsFunction ob, has_func ob))
       (obj_at ctx a)"

definition unchanged :: "Wg_Context \<Rightarrow> Wg_Context \<Rightarrow> bool" where
  "unchanged ctx ctx' =
     (class_view ctx' = class_view ctx
      \<and> ctx'\<lparr>mem := mem ctx, protectedObjects := protectedObjects ctx\<rparr> = ctx)"





section \<open>The loop of \<open>Wg_Iterate\<close>, iteration by iteration\<close>

text \<open>
  \<open>iterations k env iter callback ctx ctx'\<close>: the loop, standing at \<open>ctx\<close>, goes on to \<open>ctx'\<close>.
  Each call of \<open>__next__\<close> on the way yields a value and leaves no exception pending, and
  the callback asks for more; \<open>k\<close> is the fuel of the calls.
\<close>

inductive iterations ::
  "nat \<Rightarrow> env \<Rightarrow> addr \<Rightarrow> (addr \<Rightarrow> Wg_Context \<Rightarrow> (bool \<times> Wg_Context) option)
     \<Rightarrow> Wg_Context \<Rightarrow> Wg_Context \<Rightarrow> bool"
  for k :: nat and env :: env and iter :: addr
    and callback :: "addr \<Rightarrow> Wg_Context \<Rightarrow> (bool \<times> Wg_Context) option"
where
  start: "iterations k env iter callback ctx ctx"
| go_on: "Wg_CallMethod k env ctx iter ''__next__'' [] None = Some (Some y, ctx1) \<Longrightarrow>
    Wg_GetCurrentException ctx1 = None \<Longrightarrow>
    callback y (Wg_ProtectObject y ctx1) = Some (True, ctx2) \<Longrightarrow>
    release env [y] ctx2 = Some ctx3 \<Longrightarrow>
    iterations k env iter callback ctx3 ctx' \<Longrightarrow>
    iterations k env iter callback ctx ctx'"

section \<open>Example contexts\<close>

definition no_builtins :: Builtins where
  "no_builtins = \<lparr> none = None, true' = None, false' = None, bool' = None, int' = None,
     float' = None, str = None, tuple = None, list' = None, dict = None, set' = None, func = None,
     object = None, hash = None, len = None, repr = None, moduleObject = None,
     baseException = None, systemExit = None, exception = None, stopIteration = None,
     arithmeticError = None, overflowError = None, zeroDivisionError = None,
     attributeError = None, importError = None, lookupError = None, indexError = None,
     keyError = None, memoryError = None, nameError = None, osError = None,
     isADirectoryError = None, runtimeError = None, notImplementedError = None,
     recursionError = None, syntaxError_class = None, typeError = None, valueError = None \<rparr>"

definition Wg_DefaultConfig :: Wg_Config where
  "Wg_DefaultConfig = \<lparr> maxAlloc = 100000, maxRecursion = 100, maxCollectionSize = 1000000000,
     enableOSAccess = False, isatty = False \<rparr>"

definition empty_context :: Wg_Context where
  "empty_context = \<lparr> config = Wg_DefaultConfig, currentModule = [''__main__''],
     globals = [(''__main__'', [])], moduleLoaders = [], importPath = [],
     builtins = no_builtins, currentException = None, exceptionTrace = [], currentTrace = [],
     traceMessage = [], kwargs = [], ctx_userdata = [], mem = [], protectedObjects = [],
     lastObjectCountAfterGC = 0, ctx_argv = None, finalized = [] \<rparr>"

definition new_obj :: "string \<Rightarrow> Data \<Rightarrow> (string \<times> addr) list \<Rightarrow> Wg_Obj" where
  "new_obj t d attrs = \<lparr> type = t, data = d, attributes = AttributeTable attrs [],
     finalizer = \<lparr> fin_fptr = None, fin_userdata = None \<rparr>, references = [] \<rparr>"

text \<open>
  A map that contains itself under the key \<open>k\<close>, held by the global \<open>d\<close>, and a list with a
  finalizer that nothing refers to.
\<close>

definition gc_example :: Wg_Context where
  "gc_example = empty_context\<lparr>
     globals := [(''__main__'', [(''d'', 2)])],
     mem := [(1, new_obj ''__str'' (StringData ''k'') []),
             (2, new_obj ''__map'' (DictData [(1, 2)]) []),
             (3, (new_obj ''__list'' (VectorData []) [])
                   \<lparr>finalizer := \<lparr> fin_fptr = Some 7, fin_userdata = None \<rparr>\<rparr>)] \<rparr>"

section \<open>Method binding, as a postcondition\<close>

text \<open>
  What a lookup that finds \<open>m\<close> for the receiver \<open>obj\<close> leaves behind: when \<open>m\<close> is a
  function with \<open>isMethod\<close> set, its \<open>self\<close> is \<open>obj\<close> and nothing else has changed; otherwise
  nothing has changed at all.
\<close>

definition is_method :: "Wg_Obj \<Rightarrow> bool" where
  "is_method mo = (Wg_IsFunction mo \<and> (case data mo of FuncData f \<Rightarrow> isMethod f | _ \<Rightarrow> False))"

definition bound_to :: "Wg_Context \<Rightarrow> addr \<Rightarrow> addr \<Rightarrow> Wg_Context \<Rightarrow> bool" where
  "bound_to ctx obj m ctx' =
     (case obj_at ctx m of
        None \<Rightarrow> False
      | Some mo \<Rightarrow>
          if is_method mo
          then (case data mo of
                  FuncData f \<Rightarrow>
                    obj_at ctx' m = Some (mo\<lparr>data := FuncData (f\<lparr>self := Some obj\<rparr>)\<rparr>)
                    \<and> (\<forall>a. a \<noteq> m \<longrightarrow> obj_at ctx' a = obj_at ctx a)
                    \<and> map fst (mem ctx') = map fst (mem ctx)
                    \<and> ctx'\<lparr>mem := mem ctx\<rparr> = ctx
                | _ \<Rightarrow> False)
          else ctx' = ctx)"

text \<open>A receiver with the bound method \<open>f\<close> and the plain attribute \<open>x\<close>.\<close>

definition lookup_env :: env where
  "lookup_env = \<lparr> call_native = (\<lambda>k ctx args. None), Alloc = (\<lambda>ctx. (None, ctx)),
     call_loader = (\<lambda>k ctx. None), ReadFromFile = (\<lambda>path. None),
     Compile = (\<lambda>ctx source modl pretty expr. (None, ctx)),
     WObjTypeToString = (\<lambda>ctx obj. ''object''), IsValidIdentifier = (\<lambda>s. s \<noteq> []),
     error_callback_returns = False \<rparr>"

definition method_f :: Func where
  "method_f = \<lparr> self = None, fptr = Native 0, userdata = None, isMethod = True,
     module = ''__main__'', prettyName = ''f'' \<rparr>"

definition class_A :: Class where
  "class_A = \<lparr> name = ''A'', class_module = ''__main__'', bases = [],
     instanceAttributes = AttributeTable [(''__class__'', 4), (''f'', 2)] [],
     class_userdata = Some 4, ctor = NewClass_ctor \<rparr>"

definition lookup_example :: Wg_Context where
  "lookup_example = empty_context\<lparr>
     mem := [(1, (new_obj ''A'' NoData [(''x'', 3)])
                   \<lparr>attributes := AttributeTable [(''x'', 3)] [instanceAttributes class_A]\<rparr>),
             (2, new_obj ''__func'' (FuncData method_f) []),
             (3, new_obj ''__int'' (IntData 5) []),
             (4, new_obj ''__class'' (ClassData class_A) [])] \<rparr>"

text \<open>
  Three registered loaders: \<open>good\<close> succeeds and defines \<open>x\<close>, \<open>bad\<close> fails, and the
  builtins define nothing.
\<close>

definition load_env :: env where
  "load_env = lookup_env\<lparr> call_loader :=
     (\<lambda>k ctx. if k = 0 then Some (False, ctx)
               else if k = 1 then map_option (Pair True) (Wg_SetGlobal lookup_env ''x'' 3 ctx)
               else Some (True, ctx)) \<rparr>"

definition load_example :: Wg_Context where
  "load_example = lookup_example\<lparr>
     moduleLoaders := [(''__builtins__'', 2), (''good'', 1), (''bad'', 0)] \<rparr>"

section \<open>A small world\<close>

text \<open>
  A context with the builtins the call machinery needs, for running the functions above on
  concrete inputs. The natives: \<open>10\<close> and \<open>11\<close> are the constructors of \<open>str\<close> and \<open>dict\<close>;
  \<open>20\<close> is a function that notes that it ran and returns the keyword arguments it sees
  (the none singleton when it sees null); \<open>21\<close> fails with a pending exception; \<open>22\<close> returns
  an Int; \<open>23\<close> returns None; \<open>24\<close> returns an Int the first time and fails with a pending
  StopIteration once it has noted that it yielded; \<open>25\<close> returns its first argument; \<open>26\<close>
  fails with a pending TypeError. The allocator takes the next free address.
\<close>

definition fresh_addr :: "Wg_Context \<Rightarrow> addr" where
  "fresh_addr ctx = Suc (fold max (map fst (mem ctx)) 0)"

definition world_Alloc :: "Wg_Context \<Rightarrow> addr option \<times> Wg_Context" where
  "world_Alloc ctx =
     (Some (fresh_addr ctx), ctx\<lparr>mem := mem ctx @ [(fresh_addr ctx, new_obj ''__null'' NoData [])]\<rparr>)"

definition native_new :: "string \<Rightarrow> Data \<Rightarrow> Wg_Context \<Rightarrow> (addr option \<times> Wg_Context) option" where
  "native_new t d ctx =
     (case world_Alloc ctx of
        (Some a, ctx1) \<Rightarrow> Some (Some a, update_obj a (\<lambda>ob. ob\<lparr>type := t, data := d\<rparr>) ctx1)
      | (None, ctx1) \<Rightarrow> Some (None, ctx1))"

definition world_native :: "nat \<Rightarrow> Wg_Context \<Rightarrow> addr list \<Rightarrow> (addr option \<times> Wg_Context) option" where
  "world_native k ctx args =
     (if k = 10 then native_new ''__str'' (StringData []) ctx
      else if k = 11 then native_new ''__map'' (DictData []) ctx
      else if k = 20 then
        Some (case last (kwargs ctx) of Some kw \<Rightarrow> Some kw | None \<Rightarrow> none (builtins ctx),
              ctx\<lparr>traceMessage := ''g ran''\<rparr>)
      else if k = 21 then Some (None, ctx\<lparr>currentException := Some 40\<rparr>)
      else if k = 22 then Some (Some 22, ctx)
      else if k = 23 then Some (none (builtins ctx), ctx)
      else if k = 24 then
        (if traceMessage ctx = ''yielded'' then Some (None, ctx\<lparr>currentException := Some 40\<rparr>)
         else Some (Some 22, ctx\<lparr>traceMessage := ''yielded''\<rparr>))
      else if k = 25 then (case args of [] \<Rightarrow> None | a # _ \<Rightarrow> Some (Some a, ctx))
      else if k = 26 then Some (None, ctx\<lparr>currentException := Some 39\<rparr>)
      else None)"

definition world_env :: env where
  "world_env = \<lparr> call_native = world_native, Alloc = world_Alloc,
     call_loader = (\<lambda>k ctx. None), ReadFromFile = (\<lambda>path. None),
     Compile = (\<lambda>ctx source modl pretty expr. (None, ctx)),
     WObjTypeToString = (\<lambda>ctx obj. case obj_at ctx obj of Some ob \<Rightarrow> type ob | None \<Rightarrow> []),
     IsValidIdentifier = (\<lambda>s. s \<noteq> []),
     error_callback_returns = False \<rparr>"

definition builtin_class :: "string \<Rightarrow> addr \<Rightarrow> addr list \<Rightarrow> AttributeTable list \<Rightarrow> Wg_Function \<Rightarrow> addr \<Rightarrow> Wg_Obj" where
  "builtin_class nm a bs ps c bases_tuple =
     new_obj ''__class''
       (ClassData \<lparr> name = nm, class_module = ''__builtins__'', bases = bs,
          instanceAttributes = AttributeTable [(''__class__'', a)] ps,
          class_userdata = Some a, ctor = c \<rparr>)
       [(''__bases__'', bases_tuple)]"

definition function_obj :: "string \<Rightarrow> nat \<Rightarrow> bool \<Rightarrow> Wg_Obj" where
  "function_obj nm k m =
     new_obj ''__func''
       (FuncData \<lparr> self = None, fptr = Native k, userdata = None, isMethod = m,
          module = ''__main__'', prettyName = nm \<rparr>) []"

text \<open>A class of the program, with an \<open>__init__\<close> method and no bases.\<close>

definition user_class_data :: "string \<Rightarrow> addr \<Rightarrow> addr \<Rightarrow> Class" where
  "user_class_data nm a init =
     \<lparr> name = nm, class_module = ''__main__'', bases = [],
       instanceAttributes = AttributeTable [(''__class__'', a), (''__init__'', init)] [],
       class_userdata = Some a, ctor = NewClass_ctor \<rparr>"

definition user_class :: "string \<Rightarrow> addr \<Rightarrow> addr \<Rightarrow> Wg_Obj" where
  "user_class nm a init =
     new_obj ''__class'' (ClassData (user_class_data nm a init)) [(''__bases__'', 13)]"

definition BaseException_attrs :: AttributeTable where
  "BaseException_attrs = AttributeTable [(''__class__'', 11), (''__init__'', 19)] []"

definition world_builtins :: Builtins where
  "world_builtins = no_builtins\<lparr> none := Some 1, true' := Some 2, false' := Some 3,
     str := Some 10, dict := Some 16, baseException := Some 11, typeError := Some 12,
     stopIteration := Some 15, attributeError := Some 17, importError := Some 18 \<rparr>"

definition world :: Wg_Context where
  "world = empty_context\<lparr>
     builtins := world_builtins,
     mem := [(1, new_obj ''__null'' NoData []),
             (2, new_obj ''__bool'' (BoolData True) []),
             (3, new_obj ''__bool'' (BoolData False) []),
             (10, builtin_class ''str'' 10 [] [] (Native 10) 13),
             (11, builtin_class ''BaseException'' 11 [] [] NewClass_ctor 13),
             (12, builtin_class ''TypeError'' 12 [11] [BaseException_attrs] NewClass_ctor 14),
             (13, new_obj ''__tuple'' (VectorData []) []),
             (14, new_obj ''__tuple'' (VectorData [11]) []),
             (15, builtin_class ''StopIteration'' 15 [11] [BaseException_attrs] NewClass_ctor 14),
             (16, builtin_class ''dict'' 16 [] [] (Native 11) 13),
             (17, builtin_class ''AttributeError'' 17 [11] [BaseException_attrs] NewClass_ctor 14),
             (18, builtin_class ''ImportError'' 18 [11] [BaseException_attrs] NewClass_ctor 14),
             (19, function_obj ''BaseException.__init__'' 23 True),
             (20, function_obj ''g'' 20 False),
             (21, new_obj ''Callable'' NoData [(''__call__'', 20)]),
             (22, new_obj ''__int'' (IntData 5) []),
             (23, new_obj ''Point'' NoData
                    [(''__eq__'', 24), (''__lt__'', 25), (''__next__'', 26), (''__contains__'', 24)]),
             (24, function_obj ''Point.__eq__'' 21 True),
             (25, function_obj ''Point.__lt__'' 22 True),
             (26, function_obj ''Point.__next__'' 21 True),
             (27, new_obj ''Once'' NoData [(''__iter__'', 28), (''__next__'', 29)]),
             (28, function_obj ''Once.__iter__'' 25 True),
             (29, function_obj ''Once.__next__'' 24 True),
             (30, new_obj ''Broken'' NoData [(''__iter__'', 31), (''__next__'', 32)]),
             (31, function_obj ''Broken.__iter__'' 25 True),
             (32, function_obj ''Broken.__next__'' 26 True),
             (33, user_class ''Good'' 33 34),
             (34, function_obj ''Good.__init__'' 23 True),
             (35, user_class ''Bad'' 35 36),
             (36, function_obj ''Bad.__init__'' 22 True),
             (37, new_obj ''__map'' (DictData []) []),
             (38, new_obj ''Good'' NoData [(''__class__'', 33)]),
             (39, new_obj ''TypeError'' NoData [(''__class__'', 12)]),
             (40, new_obj ''StopIteration'' NoData [(''__class__'', 15)])] \<rparr>"

text \<open>The world one call deep, with a recursion limit of one.\<close>

definition deep_world :: Wg_Context where
  "deep_world = world\<lparr>
     config := Wg_DefaultConfig\<lparr>maxRecursion := 1\<rparr>,
     currentTrace := [\<lparr> srcPos = None, lineText = [], frame_module = ''__main__'',
                         frame_func = ''f'', syntaxError = False \<rparr>] \<rparr>"


definition go_on :: "addr \<Rightarrow> Wg_Context \<Rightarrow> (bool \<times> Wg_Context) option" where
  "go_on y ctx = Some (True, ctx)"













section \<open>Properties\<close>

lemmas tag_defs = Wg_IsInt_def Wg_IsString_def Wg_IsTuple_def Wg_IsList_def Wg_IsDictionary_def
  Wg_IsSet_def Wg_IsClass_def Wg_IsFunction_def

subsection \<open>Integer modulo\<close>

lemma floored_mod_eq_mod: "floored_mod a b = a mod b"
  by (simp add: floored_mod_def minus_mult_div_eq_mod)

text \<open>
  C4. \<open>int.__mod__\<close> is to return the floored remainder, with the sign of the divisor,
  also for a negative divisor: \<open>5 % -3\<close> is to be \<open>-1\<close>. The method returns \<open>2\<close>
  there: the remainder \<open>5 % -3\<close> of C++ is \<open>2\<close>, which is not negative, so it is
  returned as it is.
\<close>

theorem Int_Mod_negative_divisor:
  "Int_Mod ops [Int_t 5, Int_t (- 3)] = CreateInt 2 \<and> floored_mod 5 (- 3) = - 1"
  by (simp add: Int_Mod_def WIsInt_def WIsIntOrFloat_def WGetFloat_is_zero_def cpp_rem_def
      signed_modulo_int_def floored_mod_def)

subsection \<open>The collector keeps what is reachable\<close>

lemma is_root_roots: "is_root ctx r \<longleftrightarrow> r \<in> set (roots ctx)"
  unfolding is_root_def roots_def
  by (auto split: option.splits simp: image_iff) force+

lemma type_tags_distinct:
  "Wg_IsTuple ob \<Longrightarrow> \<not> Wg_IsDictionary ob \<and> \<not> Wg_IsSet ob \<and> \<not> Wg_IsFunction ob \<and> \<not> Wg_IsClass ob \<and> \<not> Wg_IsList ob"
  "Wg_IsList ob \<Longrightarrow> \<not> Wg_IsDictionary ob \<and> \<not> Wg_IsSet ob \<and> \<not> Wg_IsFunction ob \<and> \<not> Wg_IsClass ob"
  "Wg_IsDictionary ob \<Longrightarrow> \<not> Wg_IsSet ob \<and> \<not> Wg_IsFunction ob \<and> \<not> Wg_IsClass ob"
  "Wg_IsSet ob \<Longrightarrow> \<not> Wg_IsFunction ob \<and> \<not> Wg_IsClass ob"
  "Wg_IsFunction ob \<Longrightarrow> \<not> Wg_IsClass ob"
  by (auto simp: Wg_IsTuple_def Wg_IsList_def Wg_IsDictionary_def Wg_IsSet_def Wg_IsFunction_def Wg_IsClass_def)

lemma set_dict_pairs:
  "set (concat (map (\<lambda>(key, val). [key, val]) d)) = fst ` set d \<union> snd ` set d"
  by (induction d) auto

lemma payload_edge_children:
  assumes "payload_children ob = Some ps"
  shows "payload_edge ob b \<longleftrightarrow> b \<in> set ps"
proof -
  consider (vec) "Wg_IsTuple ob \<or> Wg_IsList ob"
    | (dict) "\<not> (Wg_IsTuple ob \<or> Wg_IsList ob)" "Wg_IsDictionary ob"
    | (set) "\<not> (Wg_IsTuple ob \<or> Wg_IsList ob)" "\<not> Wg_IsDictionary ob" "Wg_IsSet ob"
    | (func) "\<not> (Wg_IsTuple ob \<or> Wg_IsList ob)" "\<not> Wg_IsDictionary ob" "\<not> Wg_IsSet ob"
        "Wg_IsFunction ob"
    | (cls) "\<not> (Wg_IsTuple ob \<or> Wg_IsList ob)" "\<not> Wg_IsDictionary ob" "\<not> Wg_IsSet ob"
        "\<not> Wg_IsFunction ob" "Wg_IsClass ob"
    | (other) "\<not> (Wg_IsTuple ob \<or> Wg_IsList ob)" "\<not> Wg_IsDictionary ob" "\<not> Wg_IsSet ob"
        "\<not> Wg_IsFunction ob" "\<not> Wg_IsClass ob"
    by blast
  then show ?thesis
  proof cases
    case vec
    then have "\<not> Wg_IsDictionary ob" "\<not> Wg_IsSet ob" "\<not> Wg_IsFunction ob" "\<not> Wg_IsClass ob"
      by (auto dest: type_tags_distinct)
    with vec assms show ?thesis
      by (auto simp: payload_edge_def payload_children_def split: Data.splits)
  next
    case dict
    then have "\<not> Wg_IsSet ob" "\<not> Wg_IsFunction ob" "\<not> Wg_IsClass ob"
      by (auto dest: type_tags_distinct)
    moreover from dict assms obtain d where d: "data ob = DictData d"
      and "ps = concat (map (\<lambda>(key, val). [key, val]) d)"
      by (auto simp: payload_children_def split: Data.splits)
    then have "b \<in> set ps \<longleftrightarrow> b \<in> fst ` set d \<or> b \<in> snd ` set d"
      using set_dict_pairs [of d] by blast
    ultimately show ?thesis
      using dict d by (simp add: payload_edge_def)
  next
    case set
    then have "\<not> Wg_IsFunction ob" "\<not> Wg_IsClass ob"
      by (auto dest: type_tags_distinct)
    with set assms show ?thesis
      by (auto simp: payload_edge_def payload_children_def split: Data.splits)
  next
    case func
    then have "\<not> Wg_IsClass ob"
      by (auto dest: type_tags_distinct)
    with func assms show ?thesis
      by (auto simp: payload_edge_def payload_children_def split: Data.splits option.splits)
  next
    case cls
    with assms show ?thesis
      by (auto simp: payload_edge_def payload_children_def split: Data.splits)
  next
    case other
    with assms show ?thesis
      by (auto simp: payload_edge_def payload_children_def)
  qed
qed

lemma edge_children:
  assumes "obj_at ctx a = Some ob" and "children ob = Some cs"
  shows "edge ctx a b \<longleftrightarrow> b \<in> set cs"
proof -
  from assms(2) obtain ps where ps: "payload_children ob = Some ps"
    and cs: "cs = ps @ ForEach (attributes ob) @ references ob"
    by (auto simp: children_def split: option.splits)
  show ?thesis
    using assms(1) payload_edge_children [OF ps, of b] by (auto simp: edge_def cs)
qed

lemma mark_closed:
  assumes "mark m inUse T = Some T'"
  shows "T \<subseteq> T' \<and> set inUse \<subseteq> T' \<and>
    (\<forall>a\<in>T'. a \<in> T \<or> (\<exists>ob cs. map_of m a = Some ob \<and> children ob = Some cs \<and> set cs \<subseteq> T'))"
  using assms
proof (induction m inUse T rule: mark.induct)
  case (1 m traversed)
  then show ?case by simp
next
  case (2 m obj inUse traversed)
  show ?case
  proof (cases "obj \<in> traversed")
    case True
    with 2 show ?thesis by auto
  next
    case False
    with "2.prems" obtain ob cs where ob: "map_of m obj = Some ob" and cs: "children ob = Some cs"
      and run: "mark m (rev cs @ inUse) (insert obj traversed) = Some T'"
      by (auto split: option.splits)
    from "2.IH"(2) [OF False ob cs run]
    have ih: "insert obj traversed \<subseteq> T'" "set (rev cs @ inUse) \<subseteq> T'"
      "\<forall>a\<in>T'. a \<in> insert obj traversed \<or>
         (\<exists>ob cs. map_of m a = Some ob \<and> children ob = Some cs \<and> set cs \<subseteq> T')"
      by auto
    from ih(2) have "set cs \<subseteq> T'" by simp
    with ob cs ih show ?thesis by auto
  qed
qed

lemma map_of_filter_key:
  "map_of (filter (\<lambda>(a, ob). P a) m) k = (if P k then map_of m k else None)"
  by (induction m) auto

lemma reachable_traversed:
  assumes closed: "\<forall>a\<in>T'. \<exists>ob cs. obj_at ctx a = Some ob \<and> children ob = Some cs \<and> set cs \<subseteq> T'"
    and path: "(edge ctx)\<^sup>*\<^sup>* r v" and r: "r \<in> T'"
  shows "v \<in> T'"
  using path r
proof (induction rule: rtranclp_induct)
  case base
  then show ?case .
next
  case (step y z)
  then have "y \<in> T'" by simp
  with closed obtain ob cs where "obj_at ctx y = Some ob" "children ob = Some cs" "set cs \<subseteq> T'"
    by blast
  with step.hyps(2) show ?case
    using edge_children by blast
qed

text \<open>
  C1. Every value reachable, when \<open>Wg_CollectGarbage\<close> is invoked, from a root through
  the traversal edges is still in the arena, unchanged, after \<open>Wg_CollectGarbage\<close> returns.
\<close>

theorem collect_keeps_reachable:
  assumes gc: "Wg_CollectGarbage ctx = Some ctx'"
    and root: "is_root ctx r"
    and path: "(edge ctx)\<^sup>*\<^sup>* r v"
  shows "v \<in> fst ` set (mem ctx') \<and> obj_at ctx' v = obj_at ctx v \<and> obj_at ctx v \<noteq> None"
proof -
  from gc obtain T' where m: "mark (mem ctx) (rev (roots ctx)) {} = Some T'"
    and mem': "mem ctx' = filter (\<lambda>(a, ob). a \<in> T') (mem ctx)"
    by (auto simp: Wg_CollectGarbage_def split: option.splits)
  from mark_closed [OF m]
  have roots: "set (roots ctx) \<subseteq> T'"
    and closed: "\<forall>a\<in>T'. \<exists>ob cs. obj_at ctx a = Some ob \<and> children ob = Some cs \<and> set cs \<subseteq> T'"
    by (auto simp: obj_at_def)
  from root roots have "r \<in> T'"
    by (auto simp: is_root_roots)
  with closed path have v: "v \<in> T'"
    by (rule reachable_traversed)
  with closed obtain ob where ob: "obj_at ctx v = Some ob"
    by blast
  from v have same: "obj_at ctx' v = obj_at ctx v"
    by (simp add: obj_at_def mem' map_of_filter_key)
  with ob have "map_of (mem ctx') v = Some ob"
    by (simp add: obj_at_def)
  then have "v \<in> fst ` set (mem ctx')"
    by (auto dest: map_of_SomeD intro: rev_image_eqI)
  with same ob show ?thesis by simp
qed

lemma gc_example_roots: "roots gc_example = [2]"
  by (simp add: roots_def gc_example_def empty_context_def no_builtins_def GetAll_def)

lemma gc_example_mark: "mark (mem gc_example) [2] {} = Some {1, 2}"
  by (simp add: gc_example_def empty_context_def new_obj_def children_def payload_children_def
      ForEach_def tag_defs insert_commute)

lemma gc_example_collect:
  "Wg_CollectGarbage gc_example =
     Some (gc_example\<lparr>finalized := [(3, 7, None)],
             mem := [(1, new_obj ''__str'' (StringData ''k'') []),
                     (2, new_obj ''__map'' (DictData [(1, 2)]) [])],
             lastObjectCountAfterGC := 2\<rparr>)"
proof -
  have m: "mark (mem gc_example) (rev (roots gc_example)) {} = Some {1, 2}"
    by (simp only: gc_example_roots rev.simps append_Nil gc_example_mark)
  have f: "finalizer_calls {1, 2} (mem gc_example) = [(3, 7, None)]"
    by (simp add: gc_example_def empty_context_def finalizer_calls_def new_obj_def)
  have k: "filter (\<lambda>(a, ob). a \<in> {1, 2}) (mem gc_example) =
      [(1, new_obj ''__str'' (StringData ''k'') []), (2, new_obj ''__map'' (DictData [(1, 2)]) [])]"
    by (simp add: gc_example_def empty_context_def)
  have e: "finalized gc_example = []"
    by (simp add: gc_example_def empty_context_def)
  show ?thesis
    unfolding Wg_CollectGarbage_def m option.case f k e by simp
qed

theorem collect_keeps_reachable_witness:
  "Wg_CollectGarbage gc_example =
     Some (gc_example\<lparr>finalized := [(3, 7, None)],
             mem := [(1, new_obj ''__str'' (StringData ''k'') []),
                     (2, new_obj ''__map'' (DictData [(1, 2)]) [])],
             lastObjectCountAfterGC := 2\<rparr>)
   \<and> is_root gc_example 2 \<and> (edge gc_example)\<^sup>*\<^sup>* 2 1
   \<and> obj_at (gc_example\<lparr>finalized := [(3, 7, None)],
             mem := [(1, new_obj ''__str'' (StringData ''k'') []),
                     (2, new_obj ''__map'' (DictData [(1, 2)]) [])],
             lastObjectCountAfterGC := 2\<rparr>) 1 = obj_at gc_example 1
   \<and> obj_at gc_example 3 \<noteq> None
   \<and> obj_at (gc_example\<lparr>finalized := [(3, 7, None)],
             mem := [(1, new_obj ''__str'' (StringData ''k'') []),
                     (2, new_obj ''__map'' (DictData [(1, 2)]) [])],
             lastObjectCountAfterGC := 2\<rparr>) 3 = None"
proof -
  have root: "is_root gc_example 2"
    by (simp add: is_root_def gc_example_def empty_context_def)
  have "edge gc_example 2 1"
    by (simp add: edge_def payload_edge_def obj_at_def gc_example_def empty_context_def new_obj_def
        Wg_IsDictionary_def)
  then have path: "(edge gc_example)\<^sup>*\<^sup>* 2 1"
    by (rule r_into_rtranclp)
  have "obj_at gc_example 3 \<noteq> None"
    by (simp add: obj_at_def gc_example_def empty_context_def)
  moreover have "obj_at (gc_example\<lparr>finalized := [(3, 7, None)],
             mem := [(1, new_obj ''__str'' (StringData ''k'') []),
                     (2, new_obj ''__map'' (DictData [(1, 2)]) [])],
             lastObjectCountAfterGC := 2\<rparr>) 3 = None"
    by (simp add: obj_at_def)
  ultimately show ?thesis
    using collect_keeps_reachable [OF gc_example_collect root path] gc_example_collect root path
    by simp
qed

text \<open>On a closed heap the collector returns.\<close>

lemma mark_returns:
  assumes "\<forall>a ob. map_of m a = Some ob \<longrightarrow> (\<exists>cs. children ob = Some cs \<and> set cs \<subseteq> fst ` set m)"
    and "set inUse \<subseteq> fst ` set m"
  shows "\<exists>T'. mark m inUse T = Some T'"
  using assms
proof (induction m inUse T rule: mark.induct)
  case (1 m traversed)
  then show ?case by simp
next
  case (2 m obj inUse traversed)
  show ?case
  proof (cases "obj \<in> traversed")
    case True
    with 2 show ?thesis by simp
  next
    case False
    from "2.prems"(2) have "obj \<in> fst ` set m" by simp
    then obtain ob where ob: "map_of m obj = Some ob"
      by (metis map_of_eq_None_iff not_Some_eq)
    with "2.prems"(1) obtain cs where cs: "children ob = Some cs" "set cs \<subseteq> fst ` set m"
      by blast
    with "2.prems"(2) have "set (rev cs @ inUse) \<subseteq> fst ` set m" by simp
    from "2.IH"(2) [OF False ob cs(1) "2.prems"(1) this] False ob cs(1)
    show ?thesis by simp
  qed
qed

lemma collect_returns:
  assumes "closed_heap ctx"
  shows "\<exists>ctx'. Wg_CollectGarbage ctx = Some ctx'"
proof -
  from assms have "\<forall>a ob. map_of (mem ctx) a = Some ob \<longrightarrow>
      (\<exists>cs. children ob = Some cs \<and> set cs \<subseteq> fst ` set (mem ctx))"
    by (auto simp: closed_heap_def dest!: map_of_SomeD)
  moreover from assms have "set (rev (roots ctx)) \<subseteq> fst ` set (mem ctx)"
    by (simp add: closed_heap_def)
  ultimately obtain T' where "mark (mem ctx) (rev (roots ctx)) {} = Some T'"
    using mark_returns by blast
  then show ?thesis
    by (simp add: Wg_CollectGarbage_def)
qed

subsection \<open>The equations of the call machinery\<close>

lemma Wg_Call_0 [simp]: "Wg_Call 0 env ctx callable args kwargsDict = None"
  by (simp add: Wg_Call_def)

lemma Wg_CallMethod_0 [simp]: "Wg_CallMethod 0 env ctx obj member args kwargsDict = None"
  by (simp add: Wg_CallMethod_def)

lemma Wg_GetAttribute_0 [simp]: "Wg_GetAttribute 0 env ctx obj member = None"
  by (simp add: Wg_GetAttribute_def)

lemma Wg_RaiseException_0 [simp]: "Wg_RaiseException 0 env ctx exc message = None"
  by (simp add: Wg_RaiseException_def)

lemma Wg_GetAttribute_Suc:
  "Wg_GetAttribute (Suc n) env ctx obj member =
     (if \<not> IsValidIdentifier env member then assert_failed env (None, ctx)
      else (case obj_at ctx obj of
              None \<Rightarrow> None
            | Some ob \<Rightarrow>
                (case Get (attributes ob) member of
                   None \<Rightarrow>
                     (case Wg_RaiseAttributeError n env ctx obj member of
                        None \<Rightarrow> None
                      | Some ctx' \<Rightarrow> Some (None, ctx'))
                 | Some m \<Rightarrow> bind_self ctx obj m)))"
  unfolding Wg_GetAttribute_def Wg_RaiseAttributeError_def
  by (simp add: step_def Wg_GetAttribute_body_def split: option.splits)

lemma Wg_CallMethod_Suc:
  "Wg_CallMethod (Suc n) env ctx obj member args kwargsDict =
     (if \<not> IsValidIdentifier env member then assert_failed env (None, ctx)
      else (case Wg_GetAttribute n env ctx obj member of
              None \<Rightarrow> None
            | Some (None, ctx1) \<Rightarrow> Some (None, ctx1)
            | Some (Some method, ctx1) \<Rightarrow> Wg_Call n env ctx1 method args kwargsDict))"
  unfolding Wg_CallMethod_def Wg_GetAttribute_def Wg_Call_def
  by (simp add: step_def Wg_CallMethod_body_def)

lemma Wg_RaiseAttributeError_Suc:
  "Wg_RaiseAttributeError (Suc n) env ctx obj attribute =
     Wg_RaiseException n env ctx WG_EXC_ATTRIBUTEERROR
       ([CHR 0x27] @ WObjTypeToString env ctx obj @ [CHR 0x27] @ '' object has no attribute ''
          @ [CHR 0x27] @ attribute @ [CHR 0x27])"
  by (simp add: Wg_RaiseAttributeError_def Wg_RaiseException_def step_def
      Wg_RaiseAttributeError_body_def)

lemma Wg_RaiseException_Suc:
  "Wg_RaiseException (Suc n) env ctx exc message =
     Wg_RaiseExceptionClass n env ctx (exception_class (builtins ctx) exc) message"
  by (simp add: Wg_RaiseException_def Wg_RaiseExceptionClass_def step_def
      Wg_RaiseException_body_def)

lemma Wg_Call_Suc:
  "Wg_Call (Suc n) env ctx callable args kwargsDict =
     (case obj_at ctx callable of
        None \<Rightarrow> None
      | Some cobj \<Rightarrow>
          if Wg_IsFunction cobj \<or> Wg_IsClass cobj
          then (case kwargs_error ctx kwargsDict of
                  None \<Rightarrow> None
                | Some (Some msg) \<Rightarrow>
                    (case Wg_RaiseException n env ctx WG_EXC_TYPEERROR msg of
                       None \<Rightarrow> None
                     | Some ctx' \<Rightarrow> Some (None, ctx'))
                | Some None \<Rightarrow>
                    (case call_target cobj of
                       None \<Rightarrow> None
                     | Some (fp, ud, slf, modl, frame) \<Rightarrow>
                         (case (case fp of
                                  NewClass_ctor \<Rightarrow>
                                    NewClass_ctor_run n env
                                      (enter_call callable args kwargsDict ud slf modl frame ctx)
                                      (case slf of Some s \<Rightarrow> s # args | None \<Rightarrow> args)
                                | Native k \<Rightarrow>
                                    call_native env k
                                      (enter_call callable args kwargsDict ud slf modl frame ctx)
                                      (case slf of Some s \<Rightarrow> s # args | None \<Rightarrow> args)) of
                            None \<Rightarrow> None
                          | Some (ret, ctx5) \<Rightarrow>
                              (case leave_call env callable args slf ctx5 of
                                 None \<Rightarrow> None
                               | Some ctx6 \<Rightarrow> Some (ret, ctx6)))))
          else Wg_CallMethod n env ctx callable ''__call__'' args None)"
  unfolding Wg_Call_def Wg_CallMethod_def Wg_RaiseException_def NewClass_ctor_run_def
  by (simp add: step_def Wg_Call_body_def split: option.splits prod.splits Wg_Function.splits)

subsection \<open>Lookups bind methods\<close>

lemma obj_at_update_obj:
  "obj_at (update_obj a f ctx) k = (if k = a then map_option f (obj_at ctx k) else obj_at ctx k)"
proof -
  have "map_of (map (\<lambda>(a', ob). if a' = a then (a', f ob) else (a', ob)) m) k =
      (if k = a then map_option f (map_of m k) else map_of m k)" for m
    by (induction m) auto
  then show ?thesis
    by (simp add: obj_at_def update_obj_def)
qed

lemma addresses_update_obj: "map fst (mem (update_obj a f ctx)) = map fst (mem ctx)"
  by (simp add: update_obj_def) (induction "mem ctx"; auto simp: case_prod_unfold)

lemma update_obj_rest: "(update_obj a f ctx)\<lparr>mem := mem ctx\<rparr> = ctx"
  by (simp add: update_obj_def)

lemma bind_self_bound:
  assumes "obj_at ctx m = Some mo" and "Wg_IsFunction mo \<longrightarrow> (\<exists>f. data mo = FuncData f)"
  shows "\<exists>ctx'. bind_self ctx obj m = Some (Some m, ctx') \<and> bound_to ctx obj m ctx'"
proof (cases "is_method mo")
  case True
  then obtain f where f: "data mo = FuncData f" "isMethod f" "Wg_IsFunction mo"
    by (auto simp: is_method_def split: Data.splits)
  with assms(1) True show ?thesis
    by (simp add: bind_self_def bound_to_def obj_at_update_obj addresses_update_obj
        update_obj_rest)
next
  case False
  with assms show ?thesis
    by (auto simp: bind_self_def bound_to_def is_method_def split: Data.splits)
qed


text \<open>
  C8. When \<open>Wg_HasAttribute\<close>, \<open>Wg_GetAttribute\<close> or \<open>Wg_GetAttributeFromBase\<close> finds a
  function with \<open>isMethod\<close> set, the function's \<open>self\<close> is the receiver when the handle is
  returned, and nothing else has changed; a lookup that finds anything else returns the
  handle and changes nothing.
\<close>

theorem lookup_binds_method:
  assumes valid: "IsValidIdentifier env member"
    and ob: "obj_at ctx obj = Some ob"
    and mo: "obj_at ctx m = Some mo"
    and wt: "Wg_IsFunction mo \<longrightarrow> (\<exists>f. data mo = FuncData f)"
  shows "(Get (attributes ob) member = Some m \<longrightarrow>
            (\<exists>ctx'. Wg_HasAttribute env ctx obj member = Some (Some m, ctx') \<and> bound_to ctx obj m ctx')
          \<and> (\<exists>ctx'. Wg_GetAttribute (Suc n) env ctx obj member = Some (Some m, ctx')
                \<and> bound_to ctx obj m ctx'))
     \<and> (GetFromBase (attributes ob) member = Some m \<longrightarrow>
            (\<exists>ctx'. Wg_GetAttributeFromBase env ctx obj member None = Some (Some m, ctx')
                \<and> bound_to ctx obj m ctx'))
     \<and> (obj_at ctx b = Some bo \<and> data bo = ClassData c \<and> Get (instanceAttributes c) member = Some m \<longrightarrow>
            (\<exists>ctx'. Wg_GetAttributeFromBase env ctx obj member (Some b) = Some (Some m, ctx')
                \<and> bound_to ctx obj m ctx'))"
proof -
  from bind_self_bound [OF mo wt]
  obtain ctx' where b: "bind_self ctx obj m = Some (Some m, ctx')" "bound_to ctx obj m ctx'"
    by blast
  have "Get (attributes ob) member = Some m \<Longrightarrow>
      Wg_HasAttribute env ctx obj member = Some (Some m, ctx')"
    using valid ob b(1) by (simp add: Wg_HasAttribute_def)
  moreover have "Get (attributes ob) member = Some m \<Longrightarrow>
      Wg_GetAttribute (Suc n) env ctx obj member = Some (Some m, ctx')"
    using valid ob b(1) by (simp add: Wg_GetAttribute_Suc)
  moreover have "GetFromBase (attributes ob) member = Some m \<Longrightarrow>
      Wg_GetAttributeFromBase env ctx obj member None = Some (Some m, ctx')"
    using valid ob b(1) by (simp add: Wg_GetAttributeFromBase_def)
  moreover have "obj_at ctx b = Some bo \<and> data bo = ClassData c
        \<and> Get (instanceAttributes c) member = Some m \<Longrightarrow>
      Wg_GetAttributeFromBase env ctx obj member (Some b) = Some (Some m, ctx')"
    using valid ob b(1) by (simp add: Wg_GetAttributeFromBase_def)
  ultimately show ?thesis
    using b(2) by blast
qed

lemma lookup_example_objs:
  "obj_at lookup_example 1 = Some ((new_obj ''A'' NoData [(''x'', 3)])
     \<lparr>attributes := AttributeTable [(''x'', 3)] [instanceAttributes class_A]\<rparr>)"
  "obj_at lookup_example 2 = Some (new_obj ''__func'' (FuncData method_f) [])"
  "obj_at lookup_example 3 = Some (new_obj ''__int'' (IntData 5) [])"
  "obj_at lookup_example 4 = Some (new_obj ''__class'' (ClassData class_A) [])"
  by (simp_all add: obj_at_def lookup_example_def)

theorem lookup_binds_method_witness:
  "IsValidIdentifier lookup_env ''f''
   \<and> obj_at lookup_example 1 = Some ((new_obj ''A'' NoData [(''x'', 3)])
        \<lparr>attributes := AttributeTable [(''x'', 3)] [instanceAttributes class_A]\<rparr>)
   \<and> obj_at lookup_example 2 = Some (new_obj ''__func'' (FuncData method_f) [])
   \<and> Get (AttributeTable [(''x'', 3)] [instanceAttributes class_A]) ''f'' = Some 2
   \<and> GetFromBase (AttributeTable [(''x'', 3)] [instanceAttributes class_A]) ''f'' = Some 2
   \<and> obj_at lookup_example 4 = Some (new_obj ''__class'' (ClassData class_A) [])
   \<and> Get (instanceAttributes class_A) ''f'' = Some 2
   \<and> (\<exists>ctx'. Wg_HasAttribute lookup_env lookup_example 1 ''f'' = Some (Some 2, ctx')
         \<and> bound_to lookup_example 1 2 ctx')
   \<and> (\<exists>ctx'. Wg_GetAttribute (Suc 0) lookup_env lookup_example 1 ''f'' = Some (Some 2, ctx')
         \<and> bound_to lookup_example 1 2 ctx')
   \<and> (\<exists>ctx'. Wg_GetAttributeFromBase lookup_env lookup_example 1 ''f'' None = Some (Some 2, ctx')
         \<and> bound_to lookup_example 1 2 ctx')
   \<and> (\<exists>ctx'. Wg_GetAttributeFromBase lookup_env lookup_example 1 ''f'' (Some 4) = Some (Some 2, ctx')
         \<and> bound_to lookup_example 1 2 ctx')"
proof -
  have valid: "IsValidIdentifier lookup_env ''f''"
    by (simp add: lookup_env_def)
  have wt: "Wg_IsFunction (new_obj ''__func'' (FuncData method_f) []) \<longrightarrow>
      (\<exists>f. data (new_obj ''__func'' (FuncData method_f) []) = FuncData f)"
    by (simp add: new_obj_def)
  have g: "Get (AttributeTable [(''x'', 3)] [instanceAttributes class_A]) ''f'' = Some 2"
    "GetFromBase (AttributeTable [(''x'', 3)] [instanceAttributes class_A]) ''f'' = Some 2"
    "Get (instanceAttributes class_A) ''f'' = Some 2"
    by (simp_all add: GetFromBase_def class_A_def)
  show ?thesis
    using lookup_binds_method [OF valid lookup_example_objs(1) lookup_example_objs(2) wt,
        where b = 4 and bo = "new_obj ''__class'' (ClassData class_A) []" and c = class_A
          and n = 0]
      valid lookup_example_objs g
    by (simp add: new_obj_def)
qed

subsection \<open>Loading a module\<close>

lemma LoadModule_failure:
  assumes "LoadModule n env ctx nm = Some (False, ctx')"
  shows "nm \<notin> fst ` set (globals ctx')"
proof (cases n)
  case 0
  with assms show ?thesis by simp
next
  case (Suc k)
  with assms show ?thesis
    by (auto split: if_splits option.splits prod.splits)
qed

lemma LoadModule_loaded:
  assumes "nm \<in> fst ` set (globals ctx)"
  shows "LoadModule (Suc n) env ctx nm = Some (True, ctx)"
  using assms by simp

subsection \<open>Comparison operators\<close>

lemma compare_op_null:
  assumes "Wg_CallMethod n env ctx lhs method [rhs] None = Some (None, ctx1)"
  shows "compare_op n env ctx method lhs rhs = None"
  using assms by (simp add: compare_op_def Wg_IsBool_def assert_failed_def)

lemma compare_op_returns:
  assumes "compare_op n env ctx method lhs rhs = Some res"
  shows "\<exists>v ctx1. Wg_CallMethod n env ctx lhs method [rhs] None = Some (Some v, ctx1)"
proof (cases "Wg_CallMethod n env ctx lhs method [rhs] None")
  case None
  with assms show ?thesis by (simp add: compare_op_def)
next
  case (Some a)
  obtain r ctx1 where a: "a = (r, ctx1)" by (cases a)
  show ?thesis
  proof (cases r)
    case None
    with Some a assms compare_op_null show ?thesis by fastforce
  next
    case (Some v)
    with \<open>Wg_CallMethod n env ctx lhs method [rhs] None = Some a\<close> a show ?thesis by simp
  qed
qed

lemma compare_op_bool:
  assumes "Wg_CallMethod n env ctx lhs method [rhs] None = Some (Some v, ctx1)"
    and "Some v = true' (builtins ctx1) \<or> Some v = false' (builtins ctx1)"
  shows "compare_op n env ctx method lhs rhs = Some (Some v, ctx1)"
  using assms by (simp add: compare_op_def Wg_IsBool_def)

lemma compare_op_non_bool:
  assumes "Wg_CallMethod n env ctx lhs method [rhs] None = Some (Some v, ctx1)"
    and "Some v \<noteq> true' (builtins ctx1)" and "Some v \<noteq> false' (builtins ctx1)"
  shows "compare_op n env ctx method lhs rhs =
    (case Wg_RaiseException n env ctx1 WG_EXC_TYPEERROR (method @ ''() returned a non bool type'') of
       None \<Rightarrow> None
     | Some ctx2 \<Rightarrow> Some (None, ctx2))"
  using assms by (simp add: compare_op_def Wg_IsBool_def)

text \<open>
  C9. A comparison or \<open>in\<close> through \<open>Wg_BinaryOp\<close> is to return null, with the exception still
  pending, when the method it calls fails. It does not return then: the null result goes
  to \<open>Wg_IsBool\<close>, whose assertion fails, and when the error callback returns the context
  is read through the null result.
\<close>

theorem Wg_BinaryOp_failed_method:
  "(op \<in> {WG_BOP_EQ, WG_BOP_NE, WG_BOP_LT, WG_BOP_LE, WG_BOP_GT, WG_BOP_GE}
      \<and> Wg_CallMethod n env ctx lhs (the (OP_METHOD_NAMES op)) [rhs] None = Some (None, ctx1)
    \<longrightarrow> Wg_BinaryOp (Suc n) env ctx op lhs rhs = None)
   \<and> (Wg_CallMethod n' env' ctx' rhs' ''__contains__'' [lhs'] None = Some (None, ctx1')
    \<longrightarrow> Wg_BinaryOp (Suc n') env' ctx' WG_BOP_IN lhs' rhs' = None)"
proof (intro conjI impI)
  assume a: "op \<in> {WG_BOP_EQ, WG_BOP_NE, WG_BOP_LT, WG_BOP_LE, WG_BOP_GT, WG_BOP_GE}
      \<and> Wg_CallMethod n env ctx lhs (the (OP_METHOD_NAMES op)) [rhs] None = Some (None, ctx1)"
  then have "Wg_CallMethod n env ctx lhs (the (OP_METHOD_NAMES op)) [rhs] None = Some (None, ctx1)"
    by simp
  then have "compare_op n env ctx (the (OP_METHOD_NAMES op)) lhs rhs = None"
    by (rule compare_op_null)
  with a show "Wg_BinaryOp (Suc n) env ctx op lhs rhs = None"
    by auto
next
  assume "Wg_CallMethod n' env' ctx' rhs' ''__contains__'' [lhs'] None = Some (None, ctx1')"
  then have "compare_op n' env' ctx' ''__contains__'' rhs' lhs' = None"
    by (rule compare_op_null)
  then show "Wg_BinaryOp (Suc n') env' ctx' WG_BOP_IN lhs' rhs' = None"
    by simp
qed

lemma world_failed_eq:
  "Wg_CallMethod (Suc (Suc (Suc 0))) world_env world 23 ''__eq__'' [22] None =
     Some (None, (update_obj 24
        (\<lambda>ob. ob\<lparr>data := FuncData \<lparr> self = Some 23, fptr = Native 21, userdata = None,
           isMethod = True, module = ''__main__'', prettyName = ''Point.__eq__'' \<rparr>\<rparr>) world)
        \<lparr>currentException := Some 40\<rparr>)"
  by code_simp

lemma world_failed_contains:
  "Wg_CallMethod (Suc (Suc (Suc 0))) world_env world 23 ''__contains__'' [22] None =
     Some (None, (update_obj 24
        (\<lambda>ob. ob\<lparr>data := FuncData \<lparr> self = Some 23, fptr = Native 21, userdata = None,
           isMethod = True, module = ''__main__'', prettyName = ''Point.__eq__'' \<rparr>\<rparr>) world)
        \<lparr>currentException := Some 40\<rparr>)"
  by code_simp

theorem Wg_BinaryOp_failed_method_witness:
  "WG_BOP_EQ \<in> {WG_BOP_EQ, WG_BOP_NE, WG_BOP_LT, WG_BOP_LE, WG_BOP_GT, WG_BOP_GE}
   \<and> Wg_CallMethod (Suc (Suc (Suc 0))) world_env world 23 ''__eq__'' [22] None =
     Some (None, (update_obj 24
        (\<lambda>ob. ob\<lparr>data := FuncData \<lparr> self = Some 23, fptr = Native 21, userdata = None,
           isMethod = True, module = ''__main__'', prettyName = ''Point.__eq__'' \<rparr>\<rparr>) world)
        \<lparr>currentException := Some 40\<rparr>)
   \<and> Wg_BinaryOp (Suc (Suc (Suc (Suc 0)))) world_env world WG_BOP_EQ 23 22 = None
   \<and> Wg_CallMethod (Suc (Suc (Suc 0))) world_env world 23 ''__contains__'' [22] None =
     Some (None, (update_obj 24
        (\<lambda>ob. ob\<lparr>data := FuncData \<lparr> self = Some 23, fptr = Native 21, userdata = None,
           isMethod = True, module = ''__main__'', prettyName = ''Point.__eq__'' \<rparr>\<rparr>) world)
        \<lparr>currentException := Some 40\<rparr>)
   \<and> Wg_BinaryOp (Suc (Suc (Suc (Suc 0)))) world_env world WG_BOP_IN 22 23 = None"
  using Wg_BinaryOp_failed_method [of WG_BOP_EQ "Suc (Suc (Suc 0))" world_env world 23 22 _
      "Suc (Suc (Suc 0))" world_env world 23 22]
    world_failed_eq world_failed_contains
  by simp

subsection \<open>Keyword arguments and the recursion limit in \<open>Wg_Call\<close>\<close>

lemma Wg_Call_checks_kwargs:
  assumes "obj_at ctx callable = Some cobj" and "Wg_IsFunction cobj \<or> Wg_IsClass cobj"
    and "kwargs_error ctx kwargsDict = Some (Some msg)"
  shows "Wg_Call (Suc n) env ctx callable args kwargsDict =
    (case Wg_RaiseException n env ctx WG_EXC_TYPEERROR msg of
       None \<Rightarrow> None
     | Some ctx' \<Rightarrow> Some (None, ctx'))"
  using assms by (simp add: Wg_Call_Suc)

lemma kwargs_error_not_map:
  assumes "obj_at ctx kw = Some ko" and "\<not> Wg_IsDictionary ko"
  shows "kwargs_error ctx (Some kw) = Some (Some ''Keyword arguments must be a dictionary'')"
  using assms by (simp add: kwargs_error_def)

lemma has_non_string_key_iff:
  assumes "\<forall>key \<in> fst ` set d. obj_at ctx key \<noteq> None"
  shows "has_non_string_key ctx d =
    Some (\<exists>key \<in> fst ` set d. \<not> Wg_IsString (the (obj_at ctx key)))"
  using assms by (induction d) auto

lemma kwargs_error_non_string_key:
  assumes "obj_at ctx kw = Some ko" and "Wg_IsDictionary ko" and "data ko = DictData d"
    and "\<forall>key \<in> fst ` set d. obj_at ctx key \<noteq> None"
  shows "kwargs_error ctx (Some kw) =
    Some (if \<exists>key \<in> fst ` set d. \<not> Wg_IsString (the (obj_at ctx key))
          then Some ''Keyword arguments dictionary must only contain string keys'' else None)"
  using assms by (simp add: kwargs_error_def has_non_string_key_iff)

lemma last_kwargs_enter_call:
  "last (kwargs (enter_call callable args kwargsDict ud slf modl frame ctx)) = kwargsDict"
  by (simp add: enter_call_def Let_def)

lemma Wg_Call_function:
  assumes "obj_at ctx callable = Some cobj" and "Wg_IsFunction cobj" and "data cobj = FuncData fn"
    and "fptr fn = Native k" and "kwargs_error ctx kwargsDict = Some None"
  shows "Wg_Call (Suc n) env ctx callable args kwargsDict =
    (case call_native env k
            (enter_call callable args kwargsDict (userdata fn) (self fn) (module fn)
               (Some \<lparr> srcPos = None, lineText = [], frame_module = module fn,
                        frame_func = prettyName fn, syntaxError = False \<rparr>) ctx)
            (case self fn of Some s \<Rightarrow> s # args | None \<Rightarrow> args) of
       None \<Rightarrow> None
     | Some (ret, ctx5) \<Rightarrow>
         (case leave_call env callable args (self fn) ctx5 of
            None \<Rightarrow> None
          | Some ctx6 \<Rightarrow> Some (ret, ctx6)))"
  using assms by (simp add: Wg_Call_Suc call_target_def)

text \<open>
  C6. Every call through \<open>Wg_Call\<close> with keyword arguments is to check them, raise TypeError
  for arguments that are not a map with string keys, and pass them to the callee otherwise.
  For a callable that is neither a function nor a class, \<open>Wg_Call\<close> forwards to \<open>__call__\<close>
  without the keyword arguments: they are neither checked nor passed.
\<close>

theorem Wg_Call_drops_kwargs:
  "obj_at ctx callable = Some cobj \<and> \<not> Wg_IsFunction cobj \<and> \<not> Wg_IsClass cobj \<longrightarrow>
     Wg_Call (Suc n) env ctx callable args kwargsDict =
     Wg_CallMethod n env ctx callable ''__call__'' args None"
  by (simp add: Wg_Call_Suc)

lemma world_call_object:
  "Wg_Call (Suc (Suc (Suc (Suc 0)))) world_env world 21 [] (Some 22) =
     Some (Some 1, world\<lparr>traceMessage := ''g ran''\<rparr>)"
  by code_simp

lemma world_objects:
  "obj_at world 21 = Some (new_obj ''Callable'' NoData [(''__call__'', 20)])"
  "obj_at world 22 = Some (new_obj ''__int'' (IntData 5) [])"
  "obj_at world 20 = Some (function_obj ''g'' 20 False)"
  by (simp_all add: obj_at_def world_def)

theorem Wg_Call_drops_kwargs_witness:
  "obj_at world 21 = Some (new_obj ''Callable'' NoData [(''__call__'', 20)])
   \<and> \<not> Wg_IsFunction (new_obj ''Callable'' NoData [(''__call__'', 20)])
   \<and> \<not> Wg_IsClass (new_obj ''Callable'' NoData [(''__call__'', 20)])
   \<and> obj_at world 22 = Some (new_obj ''__int'' (IntData 5) [])
   \<and> \<not> Wg_IsDictionary (new_obj ''__int'' (IntData 5) [])
   \<and> Wg_Call (Suc (Suc (Suc (Suc 0)))) world_env world 21 [] (Some 22) =
       Wg_CallMethod (Suc (Suc (Suc 0))) world_env world 21 ''__call__'' [] None
   \<and> Wg_Call (Suc (Suc (Suc (Suc 0)))) world_env world 21 [] (Some 22) =
       Some (Some 1, world\<lparr>traceMessage := ''g ran''\<rparr>)
   \<and> currentException (world\<lparr>traceMessage := ''g ran''\<rparr>) = None
   \<and> none (builtins world) = Some 1"
  using Wg_Call_drops_kwargs [of world 21 "new_obj ''Callable'' NoData [(''__call__'', 20)]"
      "Suc (Suc (Suc 0))" world_env "[]" "Some 22"]
    world_objects world_call_object
  by (simp add: new_obj_def tag_defs world_def empty_context_def world_builtins_def)

text \<open>
  C7. A call that would take the trace deeper than \<open>maxRecursion\<close> is to raise RecursionError
  without invoking the callee. \<open>Wg_Call\<close> never reads \<open>maxRecursion\<close>: with a limit of one
  and one frame on the trace, the callee runs and no exception is pending.
\<close>

theorem Wg_Call_ignores_maxRecursion:
  "maxRecursion (config deep_world) = 1 \<and> length (currentTrace deep_world) = 1
   \<and> Wg_Call (Suc (Suc 0)) world_env deep_world 20 [] None =
       Some (Some 1, deep_world\<lparr>traceMessage := ''g ran''\<rparr>)
   \<and> currentException (deep_world\<lparr>traceMessage := ''g ran''\<rparr>) = None"
proof -
  have "Wg_Call (Suc (Suc 0)) world_env deep_world 20 [] None =
       Some (Some 1, deep_world\<lparr>traceMessage := ''g ran''\<rparr>)"
    by code_simp
  then show ?thesis
    by (simp add: deep_world_def world_def empty_context_def Wg_DefaultConfig_def)
qed

subsection \<open>The instance test follows the class graph\<close>

lemma unchanged_refl: "unchanged ctx ctx"
  by (simp add: unchanged_def)

lemma unchanged_trans: "unchanged a b \<Longrightarrow> unchanged b c \<Longrightarrow> unchanged a c"
  unfolding unchanged_def
  by (metis (no_types, lifting) Wg_Context.surjective Wg_Context.update_convs(13,14))

lemma bases_edge_view:
  "bases_edge ctx c b \<longleftrightarrow>
     (\<exists>at t v. class_view ctx c = Some at \<and> Get (fst at) ''__bases__'' = Some t
        \<and> class_view ctx t = Some v \<and> (\<exists>xs. fst (snd v) = Some (VectorData xs) \<and> b \<in> set xs))"
  unfolding bases_edge_def class_view_def
  by (auto split: if_splits) force

lemma unchanged_bases_edge: "unchanged ctx ctx' \<Longrightarrow> bases_edge ctx' = bases_edge ctx"
  by (intro ext) (simp add: bases_edge_view unchanged_def)

lemma unchanged_protect: "unchanged ctx (Wg_ProtectObject a ctx)"
  by (auto simp: unchanged_def Wg_ProtectObject_def class_view_def obj_at_def fun_eq_iff
      split: option.splits)


lemma unchanged_unprotect:
  "Wg_UnprotectObject env a ctx = Some ctx' \<Longrightarrow> unchanged ctx ctx'"
  by (auto simp: unchanged_def Wg_UnprotectObject_def assert_failed_def class_view_def obj_at_def
      fun_eq_iff split: option.splits if_splits)

lemma unchanged_release: "release env xs ctx = Some ctx' \<Longrightarrow> unchanged ctx ctx'"
proof (induction xs arbitrary: ctx)
  case Nil
  then show ?case by (simp add: unchanged_refl)
next
  case (Cons x xs)
  then obtain c where c: "Wg_UnprotectObject env x ctx = Some c" "release env xs c = Some ctx'"
    by (auto split: option.splits)
  from unchanged_unprotect [OF c(1)] Cons.IH [OF c(2)] show ?case
    by (rule unchanged_trans)
qed





lemma class_view_tuple:
  "class_view ctx a = Some v \<Longrightarrow>
     (\<exists>ob. obj_at ctx a = Some ob \<and> fst v = attributes ob
        \<and> fst (snd v) = (if Wg_IsTuple ob then Some (data ob) else None))"
  by (auto simp: class_view_def)




lemma unchanged_fields:
  assumes "unchanged ctx ctx'"
  shows "currentTrace ctx' = currentTrace ctx" and "currentException ctx' = currentException ctx"
    and "builtins ctx' = builtins ctx" and "exceptionTrace ctx' = exceptionTrace ctx"
proof -
  from assms have "ctx'\<lparr>mem := mem ctx, protectedObjects := protectedObjects ctx\<rparr> = ctx"
    by (simp add: unchanged_def)
  then have "currentTrace (ctx'\<lparr>mem := mem ctx, protectedObjects := protectedObjects ctx\<rparr>) = currentTrace ctx"
    and "currentException (ctx'\<lparr>mem := mem ctx, protectedObjects := protectedObjects ctx\<rparr>) = currentException ctx"
    and "builtins (ctx'\<lparr>mem := mem ctx, protectedObjects := protectedObjects ctx\<rparr>) = builtins ctx"
    and "exceptionTrace (ctx'\<lparr>mem := mem ctx, protectedObjects := protectedObjects ctx\<rparr>) = exceptionTrace ctx"
    by simp_all
  then show "currentTrace ctx' = currentTrace ctx" and "currentException ctx' = currentException ctx"
    and "builtins ctx' = builtins ctx" and "exceptionTrace ctx' = exceptionTrace ctx"
    by simp_all
qed

lemma unchanged_instance_of: "unchanged ctx ctx' \<Longrightarrow> instance_of ctx' v t = instance_of ctx v t"
proof -
  assume u: "unchanged ctx ctx'"
  then have "class_view ctx' v = class_view ctx v"
    by (simp add: unchanged_def)
  then have "(\<exists>ob. obj_at ctx' v = Some ob \<and> Get (attributes ob) ''__class__'' = Some k) \<longleftrightarrow>
      (\<exists>ob. obj_at ctx v = Some ob \<and> Get (attributes ob) ''__class__'' = Some k)" for k
    by (cases "obj_at ctx v"; cases "obj_at ctx' v") (auto simp: class_view_def)
  with unchanged_bases_edge [OF u] show ?thesis
    unfolding instance_of_def by metis
qed


lemma Wg_RaiseExceptionObject_Suc:
  "Wg_RaiseExceptionObject (Suc n) env ctx exc =
     (case Wg_IsInstance n env ctx exc [baseException (builtins ctx)] of
        None \<Rightarrow> None
      | Some (Some t, ctx1) \<Rightarrow>
          Some (ctx1\<lparr>currentException := Some exc,
                     exceptionTrace := map ToOwned (currentTrace ctx1)\<rparr>)
      | Some (None, ctx1) \<Rightarrow>
          Wg_RaiseException n env ctx1 WG_EXC_TYPEERROR
            ''exceptions must derive from BaseException'')"
  unfolding Wg_RaiseExceptionObject_def Wg_RaiseException_def
  by (simp add: step_def Wg_RaiseExceptionObject_body_def split: option.splits prod.splits)

lemma Wg_RaiseExceptionClass_Suc:
  "Wg_RaiseExceptionClass (Suc n) env ctx exc_type message =
     (case exc_type of
        None \<Rightarrow> assert_failed env ctx
      | Some t \<Rightarrow>
          (case Wg_NewString n env (Wg_ProtectObject t ctx) message of
             None \<Rightarrow> None
           | Some (None, ctx2) \<Rightarrow> release env [t] ctx2
           | Some (Some msg, ctx2) \<Rightarrow>
               (case Wg_Call n env ctx2 t [msg] None of
                  None \<Rightarrow> None
                | Some (None, ctx3) \<Rightarrow> release env [t] ctx3
                | Some (Some exceptionObject, ctx3) \<Rightarrow>
                    (case Wg_RaiseExceptionObject n env ctx3 exceptionObject of
                       None \<Rightarrow> None
                     | Some ctx4 \<Rightarrow> release env [t] ctx4))))"
  unfolding Wg_RaiseExceptionClass_def Wg_NewString_def Wg_Call_def Wg_RaiseExceptionObject_def
  by (simp add: step_def Wg_RaiseExceptionClass_body_def returning_def assert_failed_def
      split: option.splits prod.splits)

lemma Wg_RaiseException_sets:
  assumes cls: "exception_class (builtins ctx) exc = Some t"
    and str: "Wg_NewString (Suc n) env (Wg_ProtectObject t ctx) message = Some (Some msg, ctx2)"
    and call: "Wg_Call (Suc n) env ctx2 t [msg] None = Some (Some e, ctx3)"
    and inst: "Wg_IsInstance n env ctx3 e [baseException (builtins ctx3)] = Some (Some b, ctx4)"
    and rel: "release env [t]
        (ctx4\<lparr>currentException := Some e, exceptionTrace := map ToOwned (currentTrace ctx4)\<rparr>) =
        Some ctx5"
  shows "Wg_RaiseException (Suc (Suc (Suc n))) env ctx exc message = Some ctx5
    \<and> currentException ctx5 = Some e"
proof -
  have "Wg_RaiseExceptionObject (Suc n) env ctx3 e =
      Some (ctx4\<lparr>currentException := Some e, exceptionTrace := map ToOwned (currentTrace ctx4)\<rparr>)"
    using inst by (simp add: Wg_RaiseExceptionObject_Suc)
  with cls str call rel have "Wg_RaiseException (Suc (Suc (Suc n))) env ctx exc message = Some ctx5"
    by (simp add: Wg_RaiseException_Suc Wg_RaiseExceptionClass_Suc)
  moreover from unchanged_release [OF rel] have "currentException ctx5 = Some e"
    by (simp add: unchanged_fields)
  ultimately show ?thesis by simp
qed

subsection \<open>Pins\<close>







subsection \<open>The search returns on a finite class tree\<close>






lemma class_view_protect: "class_view (Wg_ProtectObject a ctx) = class_view ctx"
  using unchanged_protect [of ctx a] by (simp add: unchanged_def)





lemma IsInstance_loop_mono:
  "IsInstance_loop n env ctx q ts = Some x \<Longrightarrow> IsInstance_loop (Suc n) env ctx q ts = Some x"
proof (induction n arbitrary: ctx q)
  case 0
  then show ?case by simp
next
  case (Suc n)
  show ?case
  proof (cases q)
    case Nil
    with Suc.prems show ?thesis by simp
  next
    case (Cons front rest)
    show ?thesis
    proof (cases "front \<in> set ts")
      case True
      with Suc.prems Cons show ?thesis by simp
    next
      case False
      with Suc.prems Cons obtain b c1 new c2 where
        steps: "Wg_HasAttribute env ctx front ''__bases__'' = Some (b, c1)"
          "bases_elements c1 b = Some new"
          "Wg_UnprotectObject env front (acquire new c1) = Some c2"
          "IsInstance_loop n env c2 (rest @ new) ts = Some x"
        by (auto split: option.splits)
      from Suc.IH [OF steps(4)] steps(1,2,3) False Cons show ?thesis
        by simp
    qed
  qed
qed

lemma Wg_IsInstance_mono:
  assumes "Wg_IsInstance n env ctx v ts = Some x" and "n \<le> m"
  shows "Wg_IsInstance m env ctx v ts = Some x"
proof -
  have step: "Wg_IsInstance (Suc k) env ctx v ts = Some x"
    if run: "Wg_IsInstance k env ctx v ts = Some x" for k
  proof (cases "types_are_classes ctx ts")
    case None
    with run show ?thesis by (simp add: Wg_IsInstance_def)
  next
    case (Some ok)
    show ?thesis
    proof (cases ok)
      case False
      with run Some show ?thesis by (simp add: Wg_IsInstance_def)
    next
      case True
      with run Some obtain ob where ob: "obj_at ctx v = Some ob"
        by (auto simp: Wg_IsInstance_def split: option.splits)
      show ?thesis
      proof (cases "Get (attributes ob) ''__class__''")
        case None
        with run Some True ob show ?thesis by (simp add: Wg_IsInstance_def)
      next
        case (Some klass)
        with run \<open>types_are_classes ctx ts = Some ok\<close> True ob obtain r c1 where
          loop: "IsInstance_loop k env (acquire [klass, klass] ctx) [klass] (map the ts) = Some (r, c1)"
          and rest: "(case release env [klass] c1 of None \<Rightarrow> None | Some c2 \<Rightarrow> Some (r, c2)) = Some x"
          by (auto simp: Wg_IsInstance_def split: option.splits)
        from IsInstance_loop_mono [OF loop] rest Some \<open>types_are_classes ctx ts = Some ok\<close> True ob
        show ?thesis
          by (simp add: Wg_IsInstance_def)
      qed
    qed
  qed
  from assms(2) assms(1) show ?thesis
    by (induction rule: dec_induct) (auto intro: step)
qed


subsection \<open>More fuel, same result\<close>

lemma Wg_CallMethod_body_mono:
  assumes le: "\<And>req ctx x. rt req ctx = Some x \<Longrightarrow> rt' req ctx = Some x"
  shows "Wg_CallMethod_body rt env ctx obj member args kw = Some x \<Longrightarrow>
    Wg_CallMethod_body rt' env ctx obj member args kw = Some x"
  unfolding Wg_CallMethod_body_def
  by (auto split: option.split_asm if_split_asm prod.split_asm dest!: le)

lemma Wg_GetAttribute_body_mono:
  assumes le: "\<And>req ctx x. rt req ctx = Some x \<Longrightarrow> rt' req ctx = Some x"
  shows "Wg_GetAttribute_body rt env ctx obj member = Some x \<Longrightarrow>
    Wg_GetAttribute_body rt' env ctx obj member = Some x"
  unfolding Wg_GetAttribute_body_def
  by (auto split: option.split_asm if_split_asm prod.split_asm dest!: le)

lemma Wg_RaiseExceptionClass_body_mono:
  assumes le: "\<And>req ctx x. rt req ctx = Some x \<Longrightarrow> rt' req ctx = Some x"
  shows "Wg_RaiseExceptionClass_body rt env ctx t msg = Some x \<Longrightarrow>
    Wg_RaiseExceptionClass_body rt' env ctx t msg = Some x"
  unfolding Wg_RaiseExceptionClass_body_def
  by (auto split: option.split_asm if_split_asm prod.split_asm dest!: le)

lemma Wg_RaiseExceptionObject_body_mono:
  assumes le: "\<And>req ctx x. rt req ctx = Some x \<Longrightarrow> rt' req ctx = Some x"
  shows "Wg_RaiseExceptionObject_body rt n env ctx exc = Some x \<Longrightarrow>
    Wg_RaiseExceptionObject_body rt' (Suc n) env ctx exc = Some x"
  unfolding Wg_RaiseExceptionObject_body_def
  by (auto split: option.split_asm if_split_asm prod.split_asm dest!: le
      dest!: Wg_IsInstance_mono [where m = "Suc n" and n = n, OF _ le_SucI [OF order_refl]])

lemma Wg_NewString_body_mono:
  assumes le: "\<And>req ctx x. rt req ctx = Some x \<Longrightarrow> rt' req ctx = Some x"
  shows "Wg_NewString_body rt env ctx val = Some x \<Longrightarrow>
    Wg_NewString_body rt' env ctx val = Some x"
  unfolding Wg_NewString_body_def
  by (auto split: option.split_asm if_split_asm prod.split_asm dest!: le)

lemma Wg_NewDictionary_body_mono:
  assumes le: "\<And>req ctx x. rt req ctx = Some x \<Longrightarrow> rt' req ctx = Some x"
  shows "Wg_NewDictionary_body rt env ctx = Some x \<Longrightarrow>
    Wg_NewDictionary_body rt' env ctx = Some x"
  unfolding Wg_NewDictionary_body_def
  by (auto split: option.split_asm if_split_asm prod.split_asm dest!: le)

lemma Wg_GetKwargs_body_mono:
  assumes le: "\<And>req ctx x. rt req ctx = Some x \<Longrightarrow> rt' req ctx = Some x"
  shows "Wg_GetKwargs_body rt env ctx = Some x \<Longrightarrow>
    Wg_GetKwargs_body rt' env ctx = Some x"
  unfolding Wg_GetKwargs_body_def
  by (auto split: option.split_asm if_split_asm prod.split_asm dest!: le)

lemma Wg_Call_body_mono:
  assumes le: "\<And>req ctx x. rt req ctx = Some x \<Longrightarrow> rt' req ctx = Some x"
  shows "Wg_Call_body rt env ctx callable args kw = Some x \<Longrightarrow>
    Wg_Call_body rt' env ctx callable args kw = Some x"
  unfolding Wg_Call_body_def
  by (auto split: option.split_asm if_split_asm prod.split_asm Wg_Function.split_asm
      bool.split_asm dest!: le)

lemma NewClass_ctor_body_mono:
  assumes le: "\<And>req ctx x. rt req ctx = Some x \<Longrightarrow> rt' req ctx = Some x"
  shows "NewClass_ctor_body rt env ctx args = Some x \<Longrightarrow>
    NewClass_ctor_body rt' env ctx args = Some x"
  unfolding NewClass_ctor_body_def
  by (auto split: option.split_asm if_split_asm prod.split_asm dest!: le)

lemma step_mono:
  assumes le: "\<And>req ctx x. rt req ctx = Some x \<Longrightarrow> rt' req ctx = Some x"
    and run: "step rt n env req ctx = Some x"
  shows "step rt' (Suc n) env req ctx = Some x"
proof (cases req)
  case (Call_req callable args kw)
  with run Wg_Call_body_mono [of rt rt', OF le] show ?thesis
    by (simp add: step_def)
next
  case (CallMethod_req obj member args kw)
  with run Wg_CallMethod_body_mono [of rt rt', OF le] show ?thesis
    by (simp add: step_def)
next
  case (GetAttribute_req obj member)
  with run Wg_GetAttribute_body_mono [of rt rt', OF le] show ?thesis
    by (simp add: step_def)
next
  case (RaiseAttributeError_req obj attribute)
  with run le show ?thesis
    by (simp add: step_def Wg_RaiseAttributeError_body_def)
next
  case (RaiseException_req exc message)
  with run le show ?thesis
    by (simp add: step_def Wg_RaiseException_body_def)
next
  case (RaiseExceptionClass_req t message)
  with run Wg_RaiseExceptionClass_body_mono [of rt rt', OF le] show ?thesis
    by (simp add: step_def)
next
  case (RaiseExceptionObject_req exc)
  with run Wg_RaiseExceptionObject_body_mono [of rt rt', OF le] show ?thesis
    by (simp add: step_def)
next
  case (NewString_req val)
  with run Wg_NewString_body_mono [of rt rt', OF le] show ?thesis
    by (simp add: step_def)
next
  case NewDictionary_req
  with run Wg_NewDictionary_body_mono [of rt rt', OF le] show ?thesis
    by (simp add: step_def)
next
  case GetKwargs_req
  with run Wg_GetKwargs_body_mono [of rt rt', OF le] show ?thesis
    by (simp add: step_def)
next
  case (NewClass_ctor_req args)
  with run NewClass_ctor_body_mono [of rt rt', OF le] show ?thesis
    by (simp add: step_def)
qed

lemma runtime_Suc:
  "runtime n env req ctx = Some x \<Longrightarrow> runtime (Suc n) env req ctx = Some x"
proof (induction n arbitrary: req ctx x)
  case 0
  then show ?case by simp
next
  case (Suc n)
  from Suc.prems have "step (runtime n env) n env req ctx = Some x"
    by simp
  then have "step (runtime (Suc n) env) (Suc n) env req ctx = Some x"
    by (rule step_mono [rotated]) (rule Suc.IH)
  then show ?case by simp
qed

lemma runtime_mono:
  assumes "runtime n env req ctx = Some x" and "n \<le> m"
  shows "runtime m env req ctx = Some x"
  using assms(2) assms(1)
proof (induction rule: dec_induct)
  case base
  then show ?case .
next
  case (step k)
  then have "runtime k env req ctx = Some x" by blast
  then show ?case by (rule runtime_Suc)
qed


lemma Wg_Call_mono:
  "Wg_Call n env ctx callable args kw = Some x \<Longrightarrow> n \<le> m \<Longrightarrow>
     Wg_Call m env ctx callable args kw = Some x"
  unfolding Wg_Call_def by (rule runtime_mono)

lemma Wg_NewString_mono:
  "Wg_NewString n env ctx val = Some x \<Longrightarrow> n \<le> m \<Longrightarrow> Wg_NewString m env ctx val = Some x"
  unfolding Wg_NewString_def by (rule runtime_mono)

lemma Wg_GetKwargs_mono:
  "Wg_GetKwargs n env ctx = Some x \<Longrightarrow> n \<le> m \<Longrightarrow> Wg_GetKwargs m env ctx = Some x"
  unfolding Wg_GetKwargs_def by (rule runtime_mono)

lemma Wg_RaiseException_mono:
  assumes "Wg_RaiseException n env ctx exc msg = Some c" and "n \<le> m"
  shows "Wg_RaiseException m env ctx exc msg = Some c"
proof -
  from assms(1) obtain r where "runtime n env (RaiseException_req exc msg) ctx = Some (r, c)"
    by (auto simp: Wg_RaiseException_def)
  from runtime_mono [OF this assms(2)] show ?thesis
    by (simp add: Wg_RaiseException_def)
qed

lemma Wg_RaiseExceptionObject_mono:
  assumes "Wg_RaiseExceptionObject n env ctx exc = Some c" and "n \<le> m"
  shows "Wg_RaiseExceptionObject m env ctx exc = Some c"
proof -
  from assms(1) obtain r where "runtime n env (RaiseExceptionObject_req exc) ctx = Some (r, c)"
    by (auto simp: Wg_RaiseExceptionObject_def)
  from runtime_mono [OF this assms(2)] show ?thesis
    by (simp add: Wg_RaiseExceptionObject_def)
qed

lemma NewClass_ctor_run_mono:
  "NewClass_ctor_run n env ctx args = Some x \<Longrightarrow> n \<le> m \<Longrightarrow>
     NewClass_ctor_run m env ctx args = Some x"
  unfolding NewClass_ctor_run_def by (rule runtime_mono)

subsection \<open>Iteration ends on StopIteration\<close>

lemma Wg_Iterate_loop_goes_on:
  assumes "Wg_CallMethod n env ctx iter ''__next__'' [] None = Some (Some y, ctx1)"
    and "Wg_GetCurrentException ctx1 = None"
    and "callback y (Wg_ProtectObject y ctx1) = Some (True, ctx2)"
    and "release env [y] ctx2 = Some ctx3"
  shows "Wg_Iterate_loop (Suc n) env ctx iter callback = Wg_Iterate_loop n env ctx3 iter callback"
  using assms by simp













subsection \<open>A class that is its own base\<close>








end
